theory Spec2Isabelle
  imports Main
begin

section \<open>Values, errors and the observable trace\<close>

text \<open>
  The consumer works on what \<^verbatim>\<open>JSON.parse\<close> returns: null, booleans, numbers, strings,
  arrays and objects. An object is its list of own properties in insertion order (the
  keys of a parsed object are distinct). The consumer never computes with a number of a
  payload; it only tests it for truthiness, so a number is modelled by an integer and
  zero is the falsy one.
\<close>

datatype json =
    JNull
  | JBool bool
  | JNum int
  | JStr string
  | JArr "json list"
  | JObj "(string \<times> json) list"

text \<open>Every JavaScript error carries a message.\<close>

datatype error =
    TypeError string
  | SyntaxError string
  | Error string

fun error_message :: "error \<Rightarrow> string" where
  "error_message (TypeError m) = m"
| "error_message (SyntaxError m) = m"
| "error_message (Error m) = m"

text \<open>
  What the process does to the outside world, in order: calls of the log4js logger
  (level and arguments; the pieces of a template string are kept as separate
  arguments, and \<open>JsonText v\<close> is the JSON text that \<^verbatim>\<open>JSON.stringify\<close> returns for the
  value \<open>v\<close>), calls of the kafkajs client with the error they threw, if any, and timer
  sleeps in milliseconds.
\<close>

datatype level = INFO | WARN | ERROR

datatype log_arg = Text string | Num nat | Thrown error | JsonText json

datatype kafka_call =
    AdminConnect | AdminListTopics | AdminDisconnect
  | ConsumerConnect | ConsumerSubscribe string bool | ConsumerRun | ConsumerDisconnect

datatype event =
    Log level "log_arg list"
  | Call kafka_call "error option"
  | Sleep nat

type_synonym trace = "event list"

subsection \<open>JavaScript truthiness and property reads\<close>

fun truthy :: "json \<Rightarrow> bool" where
  "truthy JNull = False"
| "truthy (JBool b) = b"
| "truthy (JNum n) = (n \<noteq> 0)"
| "truthy (JStr s) = (s \<noteq> [])"
| "truthy (JArr xs) = True"
| "truthy (JObj kvs) = True"

text \<open>A property read gives \<^verbatim>\<open>undefined\<close> (\<open>None\<close>) or a value.\<close>

fun truthy_opt :: "json option \<Rightarrow> bool" where
  "truthy_opt None = False"
| "truthy_opt (Some v) = truthy v"

text \<open>
  \<^verbatim>\<open>v.k\<close> for a property name \<open>k\<close> that no built-in prototype defines; the eight
  names the consumer reads (type, database, table, data, old_data, ts, timestamp, id)
  are all of this kind. Reading a property of null throws a TypeError; a boolean, a
  number, a string and an array have no such property; an object has it when it is one
  of its own properties.
\<close>

fun get_prop :: "json \<Rightarrow> string \<Rightarrow> error + json option" where
  "get_prop JNull k = Inl (TypeError (''Cannot read properties of null (reading '' @ k @ '')''))"
| "get_prop (JObj kvs) k = Inr (map_of kvs k)"
| "get_prop v k = Inr None"

fun isArray :: "json \<Rightarrow> bool" where
  "isArray (JArr xs) = True"
| "isArray v = False"

fun elems :: "json \<Rightarrow> json list" where
  "elems (JArr xs) = xs"
| "elems v = []"

section \<open>The Change Normalizer: processDatabaseChange\<close>

text \<open>
  The result object. \<open>oldData\<close> and \<open>changeTimestamp\<close> are properties the code adds
  only on some paths, so they are optional.
\<close>

record change_record =
  changeType :: json
  database :: json
  table :: json
  primaryKey :: json
  changes :: json
  rawData :: json
  oldData :: "json option"
  changeTimestamp :: "json option"

text \<open>
  The statements of the try block mutate \<open>result\<close> in place, so when one of them throws,
  the catch handler sees the object as mutated so far. Each statement therefore returns
  the record together with the error it threw, if any.
\<close>

type_synonym stmt = "change_record \<Rightarrow> change_record \<times> error option"

definition seq :: "stmt \<Rightarrow> stmt \<Rightarrow> stmt" where
  "seq f g r = (case f r of (r', Some e) \<Rightarrow> (r', Some e) | (r', None) \<Rightarrow> g r')"

text \<open>\<^verbatim>\<open>if (cdcData.type) { result.changeType = cdcData.type; }\<close>\<close>

definition set_changeType :: "json \<Rightarrow> stmt" where
  "set_changeType cdcData r =
     (case get_prop cdcData ''type'' of
        Inl e \<Rightarrow> (r, Some e)
      | Inr None \<Rightarrow> (r, None)
      | Inr (Some v) \<Rightarrow> (if truthy v then r\<lparr>changeType := v\<rparr> else r, None))"

text \<open>\<^verbatim>\<open>if (cdcData.database) { result.database = cdcData.database; }\<close>\<close>

definition set_database :: "json \<Rightarrow> stmt" where
  "set_database cdcData r =
     (case get_prop cdcData ''database'' of
        Inl e \<Rightarrow> (r, Some e)
      | Inr None \<Rightarrow> (r, None)
      | Inr (Some v) \<Rightarrow> (if truthy v then r\<lparr>database := v\<rparr> else r, None))"

text \<open>\<^verbatim>\<open>if (cdcData.table) { result.table = cdcData.table; }\<close>\<close>

definition set_table :: "json \<Rightarrow> stmt" where
  "set_table cdcData r =
     (case get_prop cdcData ''table'' of
        Inl e \<Rightarrow> (r, Some e)
      | Inr None \<Rightarrow> (r, None)
      | Inr (Some v) \<Rightarrow> (if truthy v then r\<lparr>table := v\<rparr> else r, None))"

text \<open>
  \<^verbatim>\<open>if (cdcData.data && Array.isArray(cdcData.data) && cdcData.data.length > 0) {
    const firstRow = cdcData.data[0];
    if (firstRow.id !== undefined) { result.primaryKey = { id: firstRow.id }; }
    result.changes = cdcData.data;
  }\<close>
  The index 0 is in range under the length test.
\<close>

definition set_primaryKey_changes :: "json \<Rightarrow> stmt" where
  "set_primaryKey_changes cdcData r =
     (case get_prop cdcData ''data'' of
        Inl e \<Rightarrow> (r, Some e)
      | Inr None \<Rightarrow> (r, None)
      | Inr (Some d) \<Rightarrow>
          (if truthy d \<and> isArray d \<and> 0 < length (elems d) then
             (let firstRow = elems d ! 0 in
              case get_prop firstRow ''id'' of
                Inl e \<Rightarrow> (r, Some e)
              | Inr None \<Rightarrow> (r\<lparr>changes := d\<rparr>, None)
              | Inr (Some v) \<Rightarrow> (r\<lparr>primaryKey := JObj [(''id'', v)], changes := d\<rparr>, None))
           else (r, None)))"

text \<open>\<^verbatim>\<open>if (cdcData.old_data) { result.oldData = cdcData.old_data; }\<close>\<close>

definition set_oldData :: "json \<Rightarrow> stmt" where
  "set_oldData cdcData r =
     (case get_prop cdcData ''old_data'' of
        Inl e \<Rightarrow> (r, Some e)
      | Inr None \<Rightarrow> (r, None)
      | Inr (Some v) \<Rightarrow> (if truthy v then r\<lparr>oldData := Some v\<rparr> else r, None))"

text \<open>
  \<^verbatim>\<open>if (cdcData.ts || cdcData.timestamp) {
    result.changeTimestamp = cdcData.ts || cdcData.timestamp;
  }\<close>
  \<^verbatim>\<open>a || b\<close> is \<open>a\<close> when \<open>a\<close> is truthy and \<open>b\<close> otherwise, and \<open>b\<close> is not read in
  the first case. The assignment evaluates the same expression again, to the same value.
\<close>

definition set_changeTimestamp :: "json \<Rightarrow> stmt" where
  "set_changeTimestamp cdcData r =
     (case get_prop cdcData ''ts'' of
        Inl e \<Rightarrow> (r, Some e)
      | Inr ts \<Rightarrow>
          (case (if truthy_opt ts then Inr ts else get_prop cdcData ''timestamp'') of
             Inl e \<Rightarrow> (r, Some e)
           | Inr v \<Rightarrow> (if truthy_opt v then r\<lparr>changeTimestamp := v\<rparr> else r, None)))"

text \<open>The body of the try block, in the order of the source.\<close>

definition try_body :: "json \<Rightarrow> stmt" where
  "try_body cdcData =
     seq (set_changeType cdcData)
    (seq (set_database cdcData)
    (seq (set_table cdcData)
    (seq (set_primaryKey_changes cdcData)
    (seq (set_oldData cdcData)
         (set_changeTimestamp cdcData)))))"

definition initial_result :: "json \<Rightarrow> change_record" where
  "initial_result cdcData =
     \<lparr>changeType = JStr ''unknown'', database = JNull, table = JNull, primaryKey = JNull,
      changes = JObj [], rawData = cdcData, oldData = None, changeTimestamp = None\<rparr>"

text \<open>
  The whole function: the catch handler logs the error and falls through to
  \<^verbatim>\<open>return result\<close>. A result \<open>Inl e\<close> would be an error that leaves the function.
\<close>

definition processDatabaseChange :: "json \<Rightarrow> trace \<Rightarrow> trace \<times> (error + change_record)" where
  "processDatabaseChange cdcData tr =
     (case try_body cdcData (initial_result cdcData) of
        (result, None) \<Rightarrow> (tr, Inr result)
      | (result, Some processingError) \<Rightarrow>
          (tr @ [Log ERROR [Text ''Error processing CDC data structure:'', Thrown processingError]],
           Inr result))"

section \<open>The Message Loop: processMessage\<close>

text \<open>
  A kafkajs message: \<^verbatim>\<open>value\<close> is a Buffer or null, \<^verbatim>\<open>offset\<close> and \<^verbatim>\<open>timestamp\<close> are
  strings. A Buffer is the list of its bytes, and the text \<^verbatim>\<open>value.toString()\<close> is
  represented by the same bytes (it is empty exactly when the Buffer is).
\<close>

record kafka_message =
  msg_value :: "string option"
  msg_offset :: string
  msg_timestamp :: string

definition toString :: "string \<Rightarrow> string" where
  "toString buf = buf"

text \<open>
  The two built-in functions the message path calls. Both can throw: \<^verbatim>\<open>JSON.parse\<close>
  gives the parsed value or the SyntaxError for text that is not JSON;
  \<open>JSON_stringify rt v\<close> is the error \<^verbatim>\<open>JSON.stringify\<close> throws on \<open>v\<close>, or \<open>None\<close> when
  it returns the JSON text of \<open>v\<close>.
\<close>

record runtime =
  JSON_parse :: "string \<Rightarrow> error + json"
  JSON_stringify :: "json \<Rightarrow> error option"

text \<open>
  The object literal handed to \<^verbatim>\<open>JSON.stringify\<close>, with its properties in source order.
  \<open>now\<close> is \<^verbatim>\<open>new Date().toISOString()\<close>, \<open>messageSize\<close> is \<^verbatim>\<open>message.value.length\<close>.
\<close>

definition log_object ::
  "string \<Rightarrow> string \<Rightarrow> int \<Rightarrow> kafka_message \<Rightarrow> change_record \<Rightarrow> nat \<Rightarrow> json" where
  "log_object now topic partn message processedData messageSize =
     JObj [(''timestamp'', JStr now),
           (''source'', JStr ''database-cdc''),
           (''topic'', JStr topic),
           (''partition'', JNum partn),
           (''offset'', JStr (msg_offset message)),
           (''changeType'', changeType processedData),
           (''table'', table processedData),
           (''database'', database processedData),
           (''primaryKey'', primaryKey processedData),
           (''changes'', changes processedData),
           (''metadata'', JObj [(''kafkaTimestamp'', JStr (msg_timestamp message)),
                                (''messageSize'', JNum (int messageSize))])]"

text \<open>
  The statements after the parse: normalize, build the object, serialize it, log it.
  An error of any of them leaves the block.
\<close>

definition emit_change ::
  "runtime \<Rightarrow> string \<Rightarrow> string \<Rightarrow> int \<Rightarrow> kafka_message \<Rightarrow> json \<Rightarrow> trace
     \<Rightarrow> trace \<times> (error + unit)" where
  "emit_change rt now topic partn message cdcData tr =
     (case processDatabaseChange cdcData tr of
        (tr1, Inl e) \<Rightarrow> (tr1, Inl e)
      | (tr1, Inr processedData) \<Rightarrow>
          (case msg_value message of
             None \<Rightarrow> (tr1, Inl (TypeError ''Cannot read properties of null (reading length)''))
           | Some buf \<Rightarrow>
               (let entry = log_object now topic partn message processedData (length buf) in
                case JSON_stringify rt entry of
                  Some e \<Rightarrow> (tr1, Inl e)
                | None \<Rightarrow> (tr1 @ [Log INFO [JsonText entry]], Inr ()))))"

text \<open>
  The body of the outer try block. \<open>partn\<close> is the source's \<^verbatim>\<open>partition\<close>.
  \<^verbatim>\<open>!messageValue\<close> holds for null and for the empty string. The inner try/catch
  around \<^verbatim>\<open>JSON.parse\<close> logs and returns.
\<close>

definition processMessage_try ::
  "runtime \<Rightarrow> string \<Rightarrow> string \<Rightarrow> int \<Rightarrow> kafka_message \<Rightarrow> trace \<Rightarrow> trace \<times> (error + unit)" where
  "processMessage_try rt now topic partn message tr =
     (let messageValue = (case msg_value message of Some buf \<Rightarrow> Some (toString buf) | None \<Rightarrow> None) in
      case messageValue of
        None \<Rightarrow> (tr @ [Log WARN [Text ''Received empty message'']], Inr ())
      | Some text \<Rightarrow>
          if text = [] then (tr @ [Log WARN [Text ''Received empty message'']], Inr ())
          else
            (case JSON_parse rt text of
               Inl parseError \<Rightarrow>
                 (tr @ [Log ERROR [Text ''Failed to parse message JSON:'', Thrown parseError],
                        Log INFO [Text ''Raw message:'', Text text]], Inr ())
             | Inr cdcData \<Rightarrow> emit_change rt now topic partn message cdcData tr))"

text \<open>The outer catch logs the error and returns normally.\<close>

definition processMessage ::
  "runtime \<Rightarrow> string \<Rightarrow> string \<Rightarrow> int \<Rightarrow> kafka_message \<Rightarrow> trace \<Rightarrow> trace \<times> (error + unit)" where
  "processMessage rt now topic partn message tr =
     (case processMessage_try rt now topic partn message tr of
        (tr', Inl error) \<Rightarrow>
          (tr' @ [Log ERROR [Text ''Error processing message:'', Thrown error]], Inr ())
      | (tr', Inr u) \<Rightarrow> (tr', Inr ()))"

text \<open>
  The kafkajs runner hands the delivered messages to the \<^verbatim>\<open>eachMessage\<close> callback one at a
  time, in order; an error that escapes the callback stops the run. A delivery is the
  clock reading during the callback, the topic, the partition and the message.
\<close>

type_synonym delivery = "string \<times> string \<times> int \<times> kafka_message"

fun eachMessage :: "runtime \<Rightarrow> delivery \<Rightarrow> trace \<Rightarrow> trace \<times> (error + unit)" where
  "eachMessage rt (now, topic, partn, message) tr =
     processMessage rt now topic partn message tr"

fun run_messages :: "runtime \<Rightarrow> delivery list \<Rightarrow> trace \<Rightarrow> trace \<times> (error + unit)" where
  "run_messages rt [] tr = (tr, Inr ())"
| "run_messages rt (d # ds) tr =
     (case eachMessage rt d tr of
        (tr', Inl e) \<Rightarrow> (tr', Inl e)
      | (tr', Inr u) \<Rightarrow> run_messages rt ds tr')"

section \<open>The process: Broker Connector, shutdown and Liveness Reporter\<close>

text \<open>
  The state of the process is the \<^verbatim>\<open>isRunning\<close> flag of the one CDCMessageProcessor and
  the trace of what it has done so far. An async function either returns, or throws
  (its promise rejects), or ends the process through \<^verbatim>\<open>process.exit\<close>; after an exit
  nothing further runs.
\<close>

record process_state =
  isRunning :: bool
  events :: trace

datatype outcome = Returned | Threw error | Exited int

type_synonym action = "process_state \<Rightarrow> process_state \<times> outcome"

text \<open>
  The environment: the \<^verbatim>\<open>KAFKA_TOPIC\<close> variable, and the broker as seen through kafkajs.
  \<open>respond env tr c\<close> is the error with which the call \<open>c\<close> fails when it is made after
  the history \<open>tr\<close>, or \<open>None\<close> when it succeeds; any behaviour of a broker over time
  is such a function.
\<close>

record environment =
  KAFKA_TOPIC :: "string option"
  respond :: "trace \<Rightarrow> kafka_call \<Rightarrow> error option"

text \<open>Statements in sequence: the first that does not return ends the block.\<close>

fun block :: "action list \<Rightarrow> action" where
  "block [] s = (s, Returned)"
| "block (a # rest) s =
     (case a s of
        (s', Returned) \<Rightarrow> block rest s'
      | (s', Threw e) \<Rightarrow> (s', Threw e)
      | (s', Exited c) \<Rightarrow> (s', Exited c))"

definition try_catch :: "action \<Rightarrow> (error \<Rightarrow> action) \<Rightarrow> action" where
  "try_catch body handler s =
     (case body s of
        (s', Threw e) \<Rightarrow> handler e s'
      | (s', Returned) \<Rightarrow> (s', Returned)
      | (s', Exited c) \<Rightarrow> (s', Exited c))"

definition logger :: "level \<Rightarrow> log_arg list \<Rightarrow> action" where
  "logger lvl args s = (s\<lparr>events := events s @ [Log lvl args]\<rparr>, Returned)"

definition call :: "environment \<Rightarrow> kafka_call \<Rightarrow> action" where
  "call env c s =
     (let r = respond env (events s) c;
          s' = s\<lparr>events := events s @ [Call c r]\<rparr>
      in case r of None \<Rightarrow> (s', Returned) | Some e \<Rightarrow> (s', Threw e))"

definition throw :: "error \<Rightarrow> action" where
  "throw e s = (s, Threw e)"

definition process_exit :: "int \<Rightarrow> action" where
  "process_exit code s = (s, Exited code)"

definition sleep :: "nat \<Rightarrow> action" where
  "sleep ms s = (s\<lparr>events := events s @ [Sleep ms]\<rparr>, Returned)"

definition set_isRunning :: "bool \<Rightarrow> action" where
  "set_isRunning b s = (s\<lparr>isRunning := b\<rparr>, Returned)"

text \<open>The constructor: \<^verbatim>\<open>this.isRunning = false\<close>.\<close>

definition new_processor :: process_state where
  "new_processor = \<lparr>isRunning = False, events = []\<rparr>"

text \<open>\<^verbatim>\<open>process.env.KAFKA_TOPIC || 'tidb-cdc-changes'\<close>: an unset or empty variable is falsy.\<close>

definition topic_name :: "environment \<Rightarrow> string" where
  "topic_name env =
     (case KAFKA_TOPIC env of
        None \<Rightarrow> ''tidb-cdc-changes''
      | Some t \<Rightarrow> if t = [] then ''tidb-cdc-changes'' else t)"

subsection \<open>CDCMessageProcessor.start\<close>

definition start :: "environment \<Rightarrow> action" where
  "start env =
     try_catch
       (block [logger INFO [Text ''Starting CDC Consumer...''],
               call env ConsumerConnect,
               logger INFO [Text ''Connected to Kafka''],
               call env (ConsumerSubscribe (topic_name env) False),
               set_isRunning True,
               call env ConsumerRun])
       (\<lambda>error. block [logger ERROR [Text ''Failed to start consumer:'', Thrown error],
                      process_exit 1])"

text \<open>
  The statements of the try block of \<^verbatim>\<open>start\<close> that come before \<^verbatim>\<open>await consumer.run(...)\<close>.
  While that last await is pending, the event loop serves health requests in the state
  these statements have left.
\<close>

definition start_before_run :: "environment \<Rightarrow> action" where
  "start_before_run env =
     block [logger INFO [Text ''Starting CDC Consumer...''],
            call env ConsumerConnect,
            logger INFO [Text ''Connected to Kafka''],
            call env (ConsumerSubscribe (topic_name env) False),
            set_isRunning True]"

subsection \<open>testKafkaConnection\<close>

definition testKafkaConnection :: "environment \<Rightarrow> action" where
  "testKafkaConnection env =
     try_catch
       (block [call env AdminConnect,
               call env AdminListTopics,
               logger INFO [Text ''Kafka connectivity verified''],
               call env AdminDisconnect])
       (\<lambda>error. block [call env AdminDisconnect,
                      throw (Error (''Kafka connection test failed: '' @ error_message error))])"

subsection \<open>startConsumer\<close>

definition maxRetries :: nat where
  "maxRetries = 10"

definition retryDelay :: nat where
  "retryDelay = 15000"

text \<open>The try block of one iteration; on success the function returns.\<close>

definition attempt_try :: "environment \<Rightarrow> nat \<Rightarrow> action" where
  "attempt_try env attempt =
     block [logger INFO [Text ''Starting CDC message processor (attempt '', Num attempt,
                         Text ''/'', Num maxRetries, Text '')...''],
            testKafkaConnection env,
            start env,
            logger INFO [Text ''CDC Consumer started successfully'']]"

text \<open>The catch block of one iteration.\<close>

definition attempt_catch :: "nat \<Rightarrow> error \<Rightarrow> action" where
  "attempt_catch attempt error =
     block [logger ERROR [Text ''Consumer startup attempt '', Num attempt, Text '' failed:'',
                          Text (error_message error)],
            (if attempt = maxRetries
             then block [logger ERROR [Text ''Max retry attempts reached. Exiting...''],
                         process_exit 1]
             else block []),
            logger INFO [Text ''Retrying in '', Num (retryDelay div 1000), Text '' seconds...''],
            sleep retryDelay]"

text \<open>
  \<^verbatim>\<open>for (let attempt = 1; attempt <= maxRetries; attempt++) { try {...} catch {...} }\<close>,
  entered with the loop variable at \<open>attempt\<close>.
\<close>

function startConsumer_from :: "environment \<Rightarrow> nat \<Rightarrow> action" where
  "startConsumer_from env attempt s =
     (if attempt \<le> maxRetries then
        (case attempt_try env attempt s of
           (s1, Returned) \<Rightarrow> (s1, Returned)
         | (s1, Exited c) \<Rightarrow> (s1, Exited c)
         | (s1, Threw error) \<Rightarrow>
             (case attempt_catch attempt error s1 of
                (s2, Returned) \<Rightarrow> startConsumer_from env (attempt + 1) s2
              | (s2, Threw e) \<Rightarrow> (s2, Threw e)
              | (s2, Exited c) \<Rightarrow> (s2, Exited c)))
      else (s, Returned))"
  by pat_completeness auto
termination
  by (relation "measure (\<lambda>(env, attempt, s). maxRetries + 1 - attempt)") auto

declare startConsumer_from.simps [simp del]

definition startConsumer :: "environment \<Rightarrow> action" where
  "startConsumer env = startConsumer_from env 1"

subsection \<open>CDCMessageProcessor.stop and the signal handlers\<close>

definition stop :: "environment \<Rightarrow> action" where
  "stop env s =
     (if isRunning s then
        block [logger INFO [Text ''Stopping CDC Consumer...''],
               call env ConsumerDisconnect,
               set_isRunning False,
               logger INFO [Text ''Consumer stopped'']] s
      else (s, Returned))"

definition on_SIGTERM :: "environment \<Rightarrow> action" where
  "on_SIGTERM env =
     block [logger INFO [Text ''Received SIGTERM, shutting down gracefully...''],
            stop env,
            process_exit 0]"

definition on_SIGINT :: "environment \<Rightarrow> action" where
  "on_SIGINT env =
     block [logger INFO [Text ''Received SIGINT, shutting down gracefully...''],
            stop env,
            process_exit 0]"

subsection \<open>The health endpoint\<close>

text \<open>The body of the response; \<open>now\<close> is \<^verbatim>\<open>new Date().toISOString()\<close>.\<close>

definition health :: "string \<Rightarrow> process_state \<Rightarrow> json" where
  "health now s =
     JObj [(''status'', JStr (if isRunning s then ''healthy'' else ''unhealthy'')),
           (''timestamp'', JStr now),
           (''service'', JStr ''cdc-consumer'')]"

subsection \<open>Reading the trace\<close>

text \<open>
  What the trace says about the consumer-group connection: whether any call on the
  consumer object was made, and whether \<^verbatim>\<open>consumer.connect()\<close>, \<^verbatim>\<open>consumer.subscribe()\<close> and
  \<^verbatim>\<open>consumer.run()\<close> have returned without an error.
\<close>

fun consumer_call :: "event \<Rightarrow> bool" where
  "consumer_call (Call AdminConnect r) = False"
| "consumer_call (Call AdminListTopics r) = False"
| "consumer_call (Call AdminDisconnect r) = False"
| "consumer_call (Call c r) = True"
| "consumer_call e = False"

fun connect_ok :: "event \<Rightarrow> bool" where
  "connect_ok (Call ConsumerConnect None) = True"
| "connect_ok e = False"

fun subscribe_ok :: "event \<Rightarrow> bool" where
  "subscribe_ok (Call (ConsumerSubscribe t b) None) = True"
| "subscribe_ok e = False"

fun run_ok :: "event \<Rightarrow> bool" where
  "run_ok (Call ConsumerRun None) = True"
| "run_ok e = False"

definition subscribed :: "trace \<Rightarrow> bool" where
  "subscribed tr = (list_ex connect_ok tr \<and> list_ex subscribe_ok tr)"

section \<open>Properties of the Change Normalizer\<close>

lemmas stmt_defs = seq_def set_changeType_def set_database_def set_table_def
  set_primaryKey_changes_def set_oldData_def set_changeTimestamp_def

lemma get_prop_cases:
  "get_prop v k = Inr None \<or> (\<exists>e. get_prop v k = Inl e \<and> v = JNull) \<or> (\<exists>x. get_prop v k = Inr (Some x))"
  by (cases v) auto

lemma try_body_null: "try_body JNull r = (r, Some (TypeError (''Cannot read properties of null (reading type)'')))"
  by (simp add: try_body_def stmt_defs)

lemma processDatabaseChange_returns: "\<exists>tr' r. processDatabaseChange cd tr = (tr', Inr r)"
  by (simp add: processDatabaseChange_def split: prod.splits option.splits)

text \<open>
  C1. A payload in which none of type, database, table, data, old_data, ts and timestamp
  is present (reading it gives no value: the property is missing, or the payload is
  null and the read throws) is normalized to the record of defaults: changeType
  "unknown", database, table and primaryKey null, changes the empty object, no oldData
  and no changeTimestamp. And for every payload whatsoever the function returns a
  record: no error leaves it.
\<close>

theorem normalize_all_absent:
  "(\<forall>cd tr0. \<exists>tr' r. processDatabaseChange cd tr0 = (tr', Inr r)) \<and>
   ((\<forall>k \<in> set [''type'', ''database'', ''table'', ''data'', ''old_data'', ''ts'', ''timestamp''].
       \<forall>v. get_prop cdcData k \<noteq> Inr (Some v)) \<longrightarrow>
    (\<exists>tr'. processDatabaseChange cdcData tr = (tr',
       Inr \<lparr>changeType = JStr ''unknown'', database = JNull, table = JNull, primaryKey = JNull,
            changes = JObj [], rawData = cdcData, oldData = None, changeTimestamp = None\<rparr>)))"
proof (intro conjI allI impI)
  fix cd tr0
  show "\<exists>tr' r. processDatabaseChange cd tr0 = (tr', Inr r)" by (rule processDatabaseChange_returns)
next
  assume a: "\<forall>k \<in> set [''type'', ''database'', ''table'', ''data'', ''old_data'', ''ts'', ''timestamp''].
       \<forall>v. get_prop cdcData k \<noteq> Inr (Some v)"
  show "\<exists>tr'. processDatabaseChange cdcData tr = (tr',
       Inr \<lparr>changeType = JStr ''unknown'', database = JNull, table = JNull, primaryKey = JNull,
            changes = JObj [], rawData = cdcData, oldData = None, changeTimestamp = None\<rparr>)"
  proof (cases "cdcData = JNull")
    case True
    then show ?thesis by (simp add: processDatabaseChange_def try_body_null initial_result_def)
  next
    case False
    have g: "get_prop cdcData k = Inr None" if "k \<in> set [''type'', ''database'', ''table'', ''data'', ''old_data'', ''ts'', ''timestamp'']" for k
      using get_prop_cases[of cdcData k] a that False by blast
    have "try_body cdcData (initial_result cdcData) = (initial_result cdcData, None)"
      by (simp add: try_body_def stmt_defs g)
    then show ?thesis by (simp add: processDatabaseChange_def initial_result_def)
  qed
qed

theorem normalize_all_absent_witness:
  "snd (processDatabaseChange (JObj [(''commitTs'', JNum 7)]) []) =
       Inr \<lparr>changeType = JStr ''unknown'', database = JNull, table = JNull, primaryKey = JNull,
            changes = JObj [], rawData = JObj [(''commitTs'', JNum 7)], oldData = None, changeTimestamp = None\<rparr>"
  using normalize_all_absent[of "JObj [(''commitTs'', JNum 7)]" "[]"]
  by auto

lemmas normalize_defs = processDatabaseChange_def try_body_def initial_result_def stmt_defs

subsection \<open>The statements of the try block, one by one\<close>

lemma get_prop_Inr_nonnull: "get_prop cd k = Inr v \<Longrightarrow> cd \<noteq> JNull"
  by (cases cd) auto

lemma get_prop_nonnull: "cd \<noteq> JNull \<Longrightarrow> \<exists>v. get_prop cd k = Inr v"
  by (cases cd) auto

lemma set_changeType_nonnull:
  "cd \<noteq> JNull \<Longrightarrow> \<exists>v. set_changeType cd r = (r\<lparr>changeType := v\<rparr>, None)"
proof -
  assume "cd \<noteq> JNull"
  then have "set_changeType cd r = (r\<lparr>changeType := changeType (fst (set_changeType cd r))\<rparr>, None)"
    using get_prop_nonnull[of cd "''type''"]
    by (auto simp: set_changeType_def split: option.splits)
  then show ?thesis by blast
qed

lemma set_database_nonnull:
  "cd \<noteq> JNull \<Longrightarrow> \<exists>v. set_database cd r = (r\<lparr>database := v\<rparr>, None)"
proof -
  assume "cd \<noteq> JNull"
  then have "set_database cd r = (r\<lparr>database := database (fst (set_database cd r))\<rparr>, None)"
    using get_prop_nonnull[of cd "''database''"]
    by (auto simp: set_database_def split: option.splits)
  then show ?thesis by blast
qed

lemma set_table_nonnull:
  "cd \<noteq> JNull \<Longrightarrow> \<exists>v. set_table cd r = (r\<lparr>table := v\<rparr>, None)"
proof -
  assume "cd \<noteq> JNull"
  then have "set_table cd r = (r\<lparr>table := table (fst (set_table cd r))\<rparr>, None)"
    using get_prop_nonnull[of cd "''table''"]
    by (auto simp: set_table_def split: option.splits)
  then show ?thesis by blast
qed

lemma set_oldData_nonnull:
  "cd \<noteq> JNull \<Longrightarrow> \<exists>v. set_oldData cd r = (r\<lparr>oldData := v\<rparr>, None)"
proof -
  assume "cd \<noteq> JNull"
  then have "set_oldData cd r = (r\<lparr>oldData := oldData (fst (set_oldData cd r))\<rparr>, None)"
    using get_prop_nonnull[of cd "''old_data''"]
    by (auto simp: set_oldData_def split: option.splits)
  then show ?thesis by blast
qed

lemma set_changeTimestamp_value:
  "get_prop cd ''ts'' = Inr ts \<Longrightarrow> get_prop cd ''timestamp'' = Inr tstamp \<Longrightarrow>
   set_changeTimestamp cd r =
     (if truthy_opt ts then r\<lparr>changeTimestamp := ts\<rparr>
      else if truthy_opt tstamp then r\<lparr>changeTimestamp := tstamp\<rparr> else r, None)"
  by (simp add: set_changeTimestamp_def)

lemma set_changeTimestamp_nonnull:
  "cd \<noteq> JNull \<Longrightarrow> \<exists>v. set_changeTimestamp cd r = (r\<lparr>changeTimestamp := v\<rparr>, None)"
proof -
  assume a: "cd \<noteq> JNull"
  obtain ts tstamp where "get_prop cd ''ts'' = Inr ts" "get_prop cd ''timestamp'' = Inr tstamp"
    using get_prop_nonnull[OF a] by blast
  then have "set_changeTimestamp cd r =
      (r\<lparr>changeTimestamp := changeTimestamp (fst (set_changeTimestamp cd r))\<rparr>, None)"
    by (simp add: set_changeTimestamp_value)
  then show ?thesis by blast
qed

text \<open>The statement on data, case by case.\<close>

lemma set_primaryKey_changes_rows:
  "get_prop cd ''data'' = Inr (Some (JArr (row # rows))) \<Longrightarrow>
   set_primaryKey_changes cd r =
     (case get_prop row ''id'' of
        Inl e \<Rightarrow> (r, Some e)
      | Inr None \<Rightarrow> (r\<lparr>changes := JArr (row # rows)\<rparr>, None)
      | Inr (Some v) \<Rightarrow> (r\<lparr>primaryKey := JObj [(''id'', v)], changes := JArr (row # rows)\<rparr>, None))"
  by (simp add: set_primaryKey_changes_def)

lemma set_primaryKey_changes_skip:
  "get_prop cd ''data'' = Inr None \<or>
   (\<exists>d. get_prop cd ''data'' = Inr (Some d) \<and> (\<not> isArray d \<or> d = JArr [])) \<Longrightarrow>
   set_primaryKey_changes cd r = (r, None)"
  by (auto simp: set_primaryKey_changes_def)

text \<open>The try block on a payload that is not null, statement by statement.\<close>

lemma try_body_nonnull:
  assumes "cd \<noteq> JNull"
  shows "\<exists>ct db tb od. try_body cd r =
           (case set_primaryKey_changes cd (r\<lparr>changeType := ct, database := db, table := tb\<rparr>) of
              (r4, Some e) \<Rightarrow> (r4, Some e)
            | (r4, None) \<Rightarrow> set_changeTimestamp cd (r4\<lparr>oldData := od\<rparr>))"
proof -
  obtain ct where 1: "set_changeType cd r = (r\<lparr>changeType := ct\<rparr>, None)"
    using set_changeType_nonnull[OF assms] by blast
  obtain db where 2: "set_database cd (r\<lparr>changeType := ct\<rparr>) = (r\<lparr>changeType := ct, database := db\<rparr>, None)"
    using set_database_nonnull[OF assms] by blast
  obtain tb where 3: "set_table cd (r\<lparr>changeType := ct, database := db\<rparr>) =
      (r\<lparr>changeType := ct, database := db, table := tb\<rparr>, None)"
    using set_table_nonnull[OF assms] by blast
  show ?thesis
  proof (cases "set_primaryKey_changes cd (r\<lparr>changeType := ct, database := db, table := tb\<rparr>)")
    case (Pair r4 e)
    obtain od where 5: "set_oldData cd r4 = (r4\<lparr>oldData := od\<rparr>, None)"
      using set_oldData_nonnull[OF assms] by blast
    have "try_body cd r = (case e of Some x \<Rightarrow> (r4, Some x) | None \<Rightarrow> set_changeTimestamp cd (r4\<lparr>oldData := od\<rparr>))"
      by (simp add: try_body_def seq_def 1 2 3 5 Pair split: option.splits prod.splits)
    then have "try_body cd r =
           (case set_primaryKey_changes cd (r\<lparr>changeType := ct, database := db, table := tb\<rparr>) of
              (r4, Some e) \<Rightarrow> (r4, Some e)
            | (r4, None) \<Rightarrow> set_changeTimestamp cd (r4\<lparr>oldData := od\<rparr>))"
      by (simp add: Pair split: option.splits)
    then show ?thesis by blast
  qed
qed

lemma get_prop_row_nonnull:
  "row \<noteq> JNull \<Longrightarrow> get_prop row ''id'' = Inr None \<or> (\<exists>v. get_prop row ''id'' = Inr (Some v))"
  by (cases row) auto

lemma set_primaryKey_changes_no_throw:
  assumes "cd \<noteq> JNull"
    and "\<forall>rows. get_prop cd ''data'' \<noteq> Inr (Some (JArr (JNull # rows)))"
  shows "\<exists>pk ch. set_primaryKey_changes cd r = (r\<lparr>primaryKey := pk, changes := ch\<rparr>, None)"
proof -
  have "set_primaryKey_changes cd r =
      (r\<lparr>primaryKey := primaryKey (fst (set_primaryKey_changes cd r)),
         changes := changes (fst (set_primaryKey_changes cd r))\<rparr>, None)"
  proof (cases "\<exists>row rows. get_prop cd ''data'' = Inr (Some (JArr (row # rows)))")
    case True
    then obtain row rows where d: "get_prop cd ''data'' = Inr (Some (JArr (row # rows)))" by blast
    with assms(2) have "row \<noteq> JNull" by blast
    from get_prop_row_nonnull[OF this] show ?thesis
      by (auto simp: set_primaryKey_changes_rows[OF d])
  next
    case False
    obtain v where v: "get_prop cd ''data'' = Inr v" using get_prop_nonnull[OF assms(1)] by blast
    have "set_primaryKey_changes cd r = (r, None)"
    proof (cases v)
      case None
      then show ?thesis using v by (simp add: set_primaryKey_changes_skip)
    next
      case (Some d)
      have "\<not> isArray d \<or> d = JArr []"
      proof (cases d)
        case (JArr xs)
        then show ?thesis using False v Some by (cases xs) auto
      qed auto
      then show ?thesis using v Some by (simp add: set_primaryKey_changes_skip)
    qed
    then show ?thesis by simp
  qed
  then show ?thesis by blast
qed


lemma processDatabaseChange_rows:
  assumes d: "get_prop cdcData ''data'' = Inr (Some (JArr (row # rows)))" and row: "row \<noteq> JNull"
  shows "\<exists>r. processDatabaseChange cdcData tr = (tr, Inr r) \<and> changes r = JArr (row # rows) \<and>
             primaryKey r = (case get_prop row ''id'' of Inr (Some v) \<Rightarrow> JObj [(''id'', v)] | _ \<Rightarrow> JNull)"
proof -
  have nn: "cdcData \<noteq> JNull" using d by (rule get_prop_Inr_nonnull)
  obtain ct db tb od where tb: "try_body cdcData (initial_result cdcData) =
      (case set_primaryKey_changes cdcData
              ((initial_result cdcData)\<lparr>changeType := ct, database := db, table := tb\<rparr>) of
         (r4, Some e) \<Rightarrow> (r4, Some e)
       | (r4, None) \<Rightarrow> set_changeTimestamp cdcData (r4\<lparr>oldData := od\<rparr>))"
    using try_body_nonnull[OF nn] by blast
  define r3 where "r3 = (initial_result cdcData)\<lparr>changeType := ct, database := db, table := tb\<rparr>"
  define pk where "pk = (case get_prop row ''id'' of Inr (Some v) \<Rightarrow> JObj [(''id'', v)] | _ \<Rightarrow> JNull)"
  have r3: "primaryKey r3 = JNull" by (simp add: r3_def initial_result_def)
  have pkc: "set_primaryKey_changes cdcData r3 = (r3\<lparr>primaryKey := pk, changes := JArr (row # rows)\<rparr>, None)"
    using get_prop_row_nonnull[OF row] r3
    by (auto simp: set_primaryKey_changes_rows[OF d] pk_def)
  obtain cts where cts: "set_changeTimestamp cdcData (r3\<lparr>primaryKey := pk, changes := JArr (row # rows), oldData := od\<rparr>)
      = (r3\<lparr>primaryKey := pk, changes := JArr (row # rows), oldData := od, changeTimestamp := cts\<rparr>, None)"
    using set_changeTimestamp_nonnull[OF nn] by blast
  have "try_body cdcData (initial_result cdcData) =
      (r3\<lparr>primaryKey := pk, changes := JArr (row # rows), oldData := od, changeTimestamp := cts\<rparr>, None)"
    using tb pkc cts by (simp add: r3_def)
  then show ?thesis
    by (simp add: processDatabaseChange_def pk_def)
qed

lemma processDatabaseChange_no_rows:
  assumes "\<forall>row rows. get_prop cdcData ''data'' \<noteq> Inr (Some (JArr (row # rows)))"
  shows "\<exists>tr' r. processDatabaseChange cdcData tr = (tr', Inr r) \<and> changes r = JObj [] \<and> primaryKey r = JNull"
proof (cases "cdcData = JNull")
  case True
  then show ?thesis by (simp add: normalize_defs)
next
  case nn: False
  obtain ct db tb od where tb: "try_body cdcData (initial_result cdcData) =
      (case set_primaryKey_changes cdcData
              ((initial_result cdcData)\<lparr>changeType := ct, database := db, table := tb\<rparr>) of
         (r4, Some e) \<Rightarrow> (r4, Some e)
       | (r4, None) \<Rightarrow> set_changeTimestamp cdcData (r4\<lparr>oldData := od\<rparr>))"
    using try_body_nonnull[OF nn] by blast
  define r3 where "r3 = (initial_result cdcData)\<lparr>changeType := ct, database := db, table := tb\<rparr>"
  obtain v where v: "get_prop cdcData ''data'' = Inr v" using get_prop_nonnull[OF nn] by blast
  have skip: "get_prop cdcData ''data'' = Inr None \<or>
      (\<exists>d. get_prop cdcData ''data'' = Inr (Some d) \<and> (\<not> isArray d \<or> d = JArr []))"
  proof (cases v)
    case None
    then show ?thesis using v by simp
  next
    case (Some d)
    have "\<not> isArray d \<or> d = JArr []"
    proof (cases d)
      case (JArr xs)
      then show ?thesis using assms v Some by (cases xs) auto
    qed auto
    then show ?thesis using v Some by simp
  qed
  have pkc: "set_primaryKey_changes cdcData r3 = (r3, None)"
    by (rule set_primaryKey_changes_skip[OF skip])
  obtain cts where cts: "set_changeTimestamp cdcData (r3\<lparr>oldData := od\<rparr>)
      = (r3\<lparr>oldData := od, changeTimestamp := cts\<rparr>, None)"
    using set_changeTimestamp_nonnull[OF nn] by blast
  have "try_body cdcData (initial_result cdcData) = (r3\<lparr>oldData := od, changeTimestamp := cts\<rparr>, None)"
    using tb pkc cts by (simp add: r3_def)
  then show ?thesis
    by (simp add: processDatabaseChange_def r3_def initial_result_def)
qed

subsection \<open>changes, changeTimestamp and primaryKey\<close>

text \<open>
  C8 (amended). When data is a non-empty array whose first element is not null, changes
  is that array, whole and unchanged, and no error is logged. When data is anything
  else (missing, not an array, an empty array, or the payload is null), changes stays
  the empty object. For data = [{id: 1, name: "a"}] the record has primaryKey {id: 1}
  and changes equal to the whole input array.
\<close>

theorem changes_is_data_for_rows:
  "(get_prop cdcData ''data'' = Inr (Some (JArr (row # rows))) \<and> row \<noteq> JNull \<longrightarrow>
      (\<exists>r. processDatabaseChange cdcData tr = (tr, Inr r) \<and> changes r = JArr (row # rows)))
   \<and> ((\<forall>row rows. get_prop cdcData ''data'' \<noteq> Inr (Some (JArr (row # rows)))) \<longrightarrow>
      (\<exists>tr' r. processDatabaseChange cdcData tr = (tr', Inr r) \<and> changes r = JObj []))
   \<and> processDatabaseChange (JObj [(''data'', JArr [JObj [(''id'', JNum 1), (''name'', JStr ''a'')]])]) tr =
       (tr, Inr \<lparr>changeType = JStr ''unknown'', database = JNull, table = JNull,
                 primaryKey = JObj [(''id'', JNum 1)],
                 changes = JArr [JObj [(''id'', JNum 1), (''name'', JStr ''a'')]],
                 rawData = JObj [(''data'', JArr [JObj [(''id'', JNum 1), (''name'', JStr ''a'')]])],
                 oldData = None, changeTimestamp = None\<rparr>)"
proof (intro conjI impI)
  assume "get_prop cdcData ''data'' = Inr (Some (JArr (row # rows))) \<and> row \<noteq> JNull"
  then show "\<exists>r. processDatabaseChange cdcData tr = (tr, Inr r) \<and> changes r = JArr (row # rows)"
    using processDatabaseChange_rows[of cdcData row rows tr] by blast
next
  assume "\<forall>row rows. get_prop cdcData ''data'' \<noteq> Inr (Some (JArr (row # rows)))"
  then show "\<exists>tr' r. processDatabaseChange cdcData tr = (tr', Inr r) \<and> changes r = JObj []"
    using processDatabaseChange_no_rows[of cdcData tr] by blast
next
  show "processDatabaseChange (JObj [(''data'', JArr [JObj [(''id'', JNum 1), (''name'', JStr ''a'')]])]) tr =
       (tr, Inr \<lparr>changeType = JStr ''unknown'', database = JNull, table = JNull,
                 primaryKey = JObj [(''id'', JNum 1)],
                 changes = JArr [JObj [(''id'', JNum 1), (''name'', JStr ''a'')]],
                 rawData = JObj [(''data'', JArr [JObj [(''id'', JNum 1), (''name'', JStr ''a'')]])],
                 oldData = None, changeTimestamp = None\<rparr>)"
    by (simp add: normalize_defs)
qed

theorem changes_is_data_for_rows_witness:
  "(\<exists>r. processDatabaseChange
          (JObj [(''type'', JStr ''insert''),
                 (''data'', JArr [JObj [(''id'', JNum 1)], JObj [(''id'', JNum 2)]])]) [] = ([], Inr r)
        \<and> changes r = JArr [JObj [(''id'', JNum 1)], JObj [(''id'', JNum 2)]])
   \<and> (\<exists>tr' r. processDatabaseChange (JObj [(''type'', JStr ''delete'')]) [] = (tr', Inr r)
        \<and> changes r = JObj [])"
  using changes_is_data_for_rows[of "JObj [(''type'', JStr ''insert''),
                 (''data'', JArr [JObj [(''id'', JNum 1)], JObj [(''id'', JNum 2)]])]"
          "JObj [(''id'', JNum 1)]" "[JObj [(''id'', JNum 2)]]" "[]"]
        changes_is_data_for_rows[of "JObj [(''type'', JStr ''delete'')]" _ _ "[]"]
  by simp

text \<open>
  The claim as first stated fails: with data present as the empty array, changes is the
  empty object, not the array; and with a null first row the error is caught before
  changes is assigned.
\<close>

theorem changes_not_data_counterexample:
  "get_prop (JObj [(''data'', JArr [])]) ''data'' = Inr (Some (JArr []))
   \<and> processDatabaseChange (JObj [(''data'', JArr [])]) [] =
     ([], Inr \<lparr>changeType = JStr ''unknown'', database = JNull, table = JNull, primaryKey = JNull,
               changes = JObj [], rawData = JObj [(''data'', JArr [])],
               oldData = None, changeTimestamp = None\<rparr>)
   \<and> JObj [] \<noteq> JArr []
   \<and> processDatabaseChange (JObj [(''data'', JArr [JNull, JObj [(''id'', JNum 2)]])]) [] =
     ([Log ERROR [Text ''Error processing CDC data structure:'',
                  Thrown (TypeError ''Cannot read properties of null (reading id)'')]],
      Inr \<lparr>changeType = JStr ''unknown'', database = JNull, table = JNull, primaryKey = JNull,
           changes = JObj [], rawData = JObj [(''data'', JArr [JNull, JObj [(''id'', JNum 2)]])],
           oldData = None, changeTimestamp = None\<rparr>)"
  by (simp add: normalize_defs)

text \<open>
  C9 (amended). When the payload is not null and data is not an array that starts with
  null, changeTimestamp is payload.ts when that is truthy, else payload.timestamp when
  that is truthy, else absent. A ts that is present but falsy (0, "", false, null) is
  passed over like a missing one.
\<close>

theorem changeTimestamp_truthy_fallback:
  assumes "get_prop cdcData ''ts'' = Inr ts"
    and "get_prop cdcData ''timestamp'' = Inr tstamp"
    and "\<forall>rows. get_prop cdcData ''data'' \<noteq> Inr (Some (JArr (JNull # rows)))"
  shows "\<exists>r. processDatabaseChange cdcData tr = (tr, Inr r) \<and>
             changeTimestamp r =
               (if truthy_opt ts then ts else if truthy_opt tstamp then tstamp else None)"
proof -
  have nn: "cdcData \<noteq> JNull" using assms(1) by (rule get_prop_Inr_nonnull)
  obtain ct db tb od where tb: "try_body cdcData (initial_result cdcData) =
      (case set_primaryKey_changes cdcData
              ((initial_result cdcData)\<lparr>changeType := ct, database := db, table := tb\<rparr>) of
         (r4, Some e) \<Rightarrow> (r4, Some e)
       | (r4, None) \<Rightarrow> set_changeTimestamp cdcData (r4\<lparr>oldData := od\<rparr>))"
    using try_body_nonnull[OF nn] by blast
  obtain pk ch where pk: "set_primaryKey_changes cdcData
              ((initial_result cdcData)\<lparr>changeType := ct, database := db, table := tb\<rparr>) =
      ((initial_result cdcData)\<lparr>changeType := ct, database := db, table := tb,
          primaryKey := pk, changes := ch\<rparr>, None)"
    using set_primaryKey_changes_no_throw[OF nn assms(3)] by blast
  define r5 where "r5 = (initial_result cdcData)\<lparr>changeType := ct, database := db, table := tb,
          primaryKey := pk, changes := ch, oldData := od\<rparr>"
  have r5: "changeTimestamp r5 = None" by (simp add: r5_def initial_result_def)
  have "try_body cdcData (initial_result cdcData) = set_changeTimestamp cdcData r5"
    by (simp add: tb pk r5_def)
  then have "try_body cdcData (initial_result cdcData) =
      (if truthy_opt ts then r5\<lparr>changeTimestamp := ts\<rparr>
       else if truthy_opt tstamp then r5\<lparr>changeTimestamp := tstamp\<rparr> else r5, None)"
    by (simp add: set_changeTimestamp_value[OF assms(1) assms(2)])
  then show ?thesis
    by (simp add: processDatabaseChange_def r5)
qed

theorem changeTimestamp_truthy_fallback_witness:
  "\<exists>r. processDatabaseChange (JObj [(''ts'', JNum 0), (''timestamp'', JNum 1700000000)]) [] = ([], Inr r)
       \<and> changeTimestamp r = Some (JNum 1700000000)"
  using changeTimestamp_truthy_fallback[of "JObj [(''ts'', JNum 0), (''timestamp'', JNum 1700000000)]"
      "Some (JNum 0)" "Some (JNum 1700000000)" "[]"]
  by simp

text \<open>
  The claim as first stated fails: ts = 0 is present, yet changeTimestamp is taken from
  timestamp; and with a null first row the error is caught before the timestamp is
  read, so a present ts is not copied at all.
\<close>

theorem changeTimestamp_not_ts_counterexample:
  "processDatabaseChange (JObj [(''ts'', JNum 0), (''timestamp'', JNum 1700000000)]) [] =
     ([], Inr \<lparr>changeType = JStr ''unknown'', database = JNull, table = JNull, primaryKey = JNull,
               changes = JObj [], rawData = JObj [(''ts'', JNum 0), (''timestamp'', JNum 1700000000)],
               oldData = None, changeTimestamp = Some (JNum 1700000000)\<rparr>)
   \<and> processDatabaseChange (JObj [(''data'', JArr [JNull]), (''ts'', JNum 1700000000)]) [] =
     ([Log ERROR [Text ''Error processing CDC data structure:'',
                  Thrown (TypeError ''Cannot read properties of null (reading id)'')]],
      Inr \<lparr>changeType = JStr ''unknown'', database = JNull, table = JNull, primaryKey = JNull,
           changes = JObj [], rawData = JObj [(''data'', JArr [JNull]), (''ts'', JNum 1700000000)],
           oldData = None, changeTimestamp = None\<rparr>)"
  by (simp add: normalize_defs)




section \<open>Properties of the Message Loop and the Structured Emitter\<close>

lemma processMessage_returns: "snd (processMessage rt now topic partn message tr) = Inr ()"
  by (simp add: processMessage_def split: prod.splits sum.splits)

lemma run_messages_returns: "snd (run_messages rt ds tr) = Inr ()"
proof (induction ds arbitrary: tr)
  case Nil
  show ?case by simp
next
  case (Cons d ds)
  obtain now topic partn message where d: "d = (now, topic, partn, message)"
    by (cases d) auto
  obtain tr' where "processMessage rt now topic partn message tr = (tr', Inr ())"
    using processMessage_returns[of rt now topic partn message tr]
    by (cases "processMessage rt now topic partn message tr") auto
  then show ?case using Cons.IH[of tr'] by (simp add: d)
qed

lemma processMessage_parse_failure:
  assumes "msg_value message = Some buf" "buf \<noteq> []" "JSON_parse rt (toString buf) = Inl e"
  shows "processMessage rt now topic partn message tr =
     (tr @ [Log ERROR [Text ''Failed to parse message JSON:'', Thrown e],
            Log INFO [Text ''Raw message:'', Text (toString buf)]], Inr ())"
  using assms by (simp add: processMessage_def processMessage_try_def toString_def)

lemma processMessage_stringify_failure:
  assumes "msg_value message = Some buf" "buf \<noteq> []" "JSON_parse rt (toString buf) = Inr cdcData"
    and "processDatabaseChange cdcData tr = (tr1, Inr r)"
    and "JSON_stringify rt (log_object now topic partn message r (length buf)) = Some e"
  shows "processMessage rt now topic partn message tr =
     (tr1 @ [Log ERROR [Text ''Error processing message:'', Thrown e]], Inr ())"
  using assms by (simp add: processMessage_def processMessage_try_def emit_change_def toString_def)

lemma processMessage_emits:
  assumes "msg_value message = Some buf" "buf \<noteq> []" "JSON_parse rt (toString buf) = Inr cdcData"
    and "processDatabaseChange cdcData tr = (tr1, Inr r)"
    and "JSON_stringify rt (log_object now topic partn message r (length buf)) = None"
  shows "processMessage rt now topic partn message tr =
     (tr1 @ [Log INFO [JsonText (log_object now topic partn message r (length buf))]], Inr ())"
  using assms by (simp add: processMessage_def processMessage_try_def emit_change_def toString_def)

lemmas message_defs = processMessage_def processMessage_try_def emit_change_def toString_def
  log_object_def

text \<open>
  C6. A message whose value is null or an empty Buffer makes processMessage log the
  warning "Received empty message" and return: that one entry is all it adds to the
  trace, whatever the parser and the serializer would do, so nothing is parsed and no
  change record is emitted.
\<close>

theorem empty_message_skipped:
  assumes "msg_value message = None \<or> msg_value message = Some []"
  shows "processMessage rt now topic partn message tr =
           (tr @ [Log WARN [Text ''Received empty message'']], Inr ())"
  using assms by (auto simp: processMessage_def processMessage_try_def toString_def)

theorem empty_message_skipped_witness:
  "processMessage \<lparr>JSON_parse = (\<lambda>text. Inl (SyntaxError ''Unexpected end of JSON input'')),
                   JSON_stringify = (\<lambda>v. None)\<rparr>
      ''2025-08-19T10:30:45.123Z'' ''tidb-cdc-changes'' 0
      \<lparr>msg_value = Some [], msg_offset = ''41'', msg_timestamp = ''1755599445000''\<rparr> [] =
     ([Log WARN [Text ''Received empty message'']], Inr ())
   \<and> processMessage \<lparr>JSON_parse = (\<lambda>text. Inl (SyntaxError ''Unexpected end of JSON input'')),
                   JSON_stringify = (\<lambda>v. None)\<rparr>
      ''2025-08-19T10:30:45.123Z'' ''tidb-cdc-changes'' 0
      \<lparr>msg_value = None, msg_offset = ''42'', msg_timestamp = ''1755599445000''\<rparr> [] =
     ([Log WARN [Text ''Received empty message'']], Inr ())"
  using empty_message_skipped[of "\<lparr>msg_value = Some [], msg_offset = ''41'', msg_timestamp = ''1755599445000''\<rparr>"
     "\<lparr>JSON_parse = (\<lambda>text. Inl (SyntaxError ''Unexpected end of JSON input'')),
                   JSON_stringify = (\<lambda>v. None)\<rparr>" "''2025-08-19T10:30:45.123Z''" "''tidb-cdc-changes''" 0 "[]"]
     empty_message_skipped[of "\<lparr>msg_value = None, msg_offset = ''42'', msg_timestamp = ''1755599445000''\<rparr>"
     "\<lparr>JSON_parse = (\<lambda>text. Inl (SyntaxError ''Unexpected end of JSON input'')),
                   JSON_stringify = (\<lambda>v. None)\<rparr>" "''2025-08-19T10:30:45.123Z''" "''tidb-cdc-changes''" 0 "[]"]
  by simp

text \<open>Where the normalizer throws, and what it then returns.\<close>

lemma processDatabaseChange_thrown:
  "try_body cdcData (initial_result cdcData) = (result, thrown) \<Longrightarrow>
   processDatabaseChange cdcData tr =
     (tr @ (case thrown of
              None \<Rightarrow> []
            | Some x \<Rightarrow> [Log ERROR [Text ''Error processing CDC data structure:'', Thrown x]]),
      Inr result)"
  by (cases thrown) (simp_all add: processDatabaseChange_def)

lemma try_body_null_row:
  assumes "get_prop cdcData ''data'' = Inr (Some (JArr (JNull # rows)))"
  shows "\<exists>result. try_body cdcData (initial_result cdcData) =
           (result, Some (TypeError ''Cannot read properties of null (reading id)''))"
proof -
  have nn: "cdcData \<noteq> JNull" using assms by (rule get_prop_Inr_nonnull)
  obtain ct db tb od where tb: "try_body cdcData (initial_result cdcData) =
      (case set_primaryKey_changes cdcData
              ((initial_result cdcData)\<lparr>changeType := ct, database := db, table := tb\<rparr>) of
         (r4, Some e) \<Rightarrow> (r4, Some e)
       | (r4, None) \<Rightarrow> set_changeTimestamp cdcData (r4\<lparr>oldData := od\<rparr>))"
    using try_body_nonnull[OF nn] by blast
  show ?thesis
    by (simp add: tb set_primaryKey_changes_rows[OF assms])
qed

lemma try_body_throws_iff:
  "(\<exists>result e. try_body cdcData (initial_result cdcData) = (result, Some e)) \<longleftrightarrow>
   (cdcData = JNull \<or> (\<exists>rows. get_prop cdcData ''data'' = Inr (Some (JArr (JNull # rows)))))"
proof
  assume "cdcData = JNull \<or> (\<exists>rows. get_prop cdcData ''data'' = Inr (Some (JArr (JNull # rows))))"
  then show "\<exists>result e. try_body cdcData (initial_result cdcData) = (result, Some e)"
    using try_body_null try_body_null_row by blast
next
  assume t: "\<exists>result e. try_body cdcData (initial_result cdcData) = (result, Some e)"
  show "cdcData = JNull \<or> (\<exists>rows. get_prop cdcData ''data'' = Inr (Some (JArr (JNull # rows))))"
  proof (rule ccontr)
    assume "\<not> (cdcData = JNull \<or> (\<exists>rows. get_prop cdcData ''data'' = Inr (Some (JArr (JNull # rows)))))"
    then have nn: "cdcData \<noteq> JNull"
      and nr: "\<forall>rows. get_prop cdcData ''data'' \<noteq> Inr (Some (JArr (JNull # rows)))" by auto
    obtain ct db tb od where tb: "try_body cdcData (initial_result cdcData) =
        (case set_primaryKey_changes cdcData
                ((initial_result cdcData)\<lparr>changeType := ct, database := db, table := tb\<rparr>) of
           (r4, Some e) \<Rightarrow> (r4, Some e)
         | (r4, None) \<Rightarrow> set_changeTimestamp cdcData (r4\<lparr>oldData := od\<rparr>))"
      using try_body_nonnull[OF nn] by blast
    obtain pk ch where pk: "set_primaryKey_changes cdcData
                ((initial_result cdcData)\<lparr>changeType := ct, database := db, table := tb\<rparr>) =
        ((initial_result cdcData)\<lparr>changeType := ct, database := db, table := tb,
            primaryKey := pk, changes := ch\<rparr>, None)"
      using set_primaryKey_changes_no_throw[OF nn nr] by blast
    obtain cts where "set_changeTimestamp cdcData
        ((initial_result cdcData)\<lparr>changeType := ct, database := db, table := tb,
            primaryKey := pk, changes := ch, oldData := od\<rparr>) =
        ((initial_result cdcData)\<lparr>changeType := ct, database := db, table := tb,
            primaryKey := pk, changes := ch, oldData := od, changeTimestamp := cts\<rparr>, None)"
      using set_changeTimestamp_nonnull[OF nn] by blast
    then have "snd (try_body cdcData (initial_result cdcData)) = None"
      by (simp add: tb pk)
    then show False using t by auto
  qed
qed

text \<open>
  C2. No error leaves processMessage, so the run over any list of deliveries reaches its
  end. A parse failure is logged, with the raw text, and the message is skipped. When
  the try block of the normalizer throws (it does so exactly for a null payload and
  for data whose first row is null), the error is logged and the entry is still
  emitted, built from the record as filled so far. An error of the serializer is
  logged by the outer catch, after whatever the normalizer logged. A message that
  does not parse followed by one that does: the first is logged and skipped, the
  second is normalized and emitted, and the run goes on with the rest.
\<close>

theorem failure_isolation:
  "snd (run_messages rt ds tr) = Inr ()
   \<and> (msg_value message = Some buf \<and> buf \<noteq> [] \<and> JSON_parse rt (toString buf) = Inl e \<longrightarrow>
        processMessage rt now topic partn message tr =
          (tr @ [Log ERROR [Text ''Failed to parse message JSON:'', Thrown e],
                 Log INFO [Text ''Raw message:'', Text (toString buf)]], Inr ()))
   \<and> (msg_value message = Some buf \<and> buf \<noteq> [] \<and> JSON_parse rt (toString buf) = Inr cdcData \<and>
        try_body cdcData (initial_result cdcData) = (result, Some e) \<and>
        JSON_stringify rt (log_object now topic partn message result (length buf)) = None \<longrightarrow>
        processMessage rt now topic partn message tr =
          (tr @ [Log ERROR [Text ''Error processing CDC data structure:'', Thrown e],
                 Log INFO [JsonText (log_object now topic partn message result (length buf))]],
           Inr ()))
   \<and> ((\<exists>result e. try_body cdcData (initial_result cdcData) = (result, Some e)) \<longleftrightarrow>
        (cdcData = JNull \<or>
         (\<exists>rows. get_prop cdcData ''data'' = Inr (Some (JArr (JNull # rows))))))
   \<and> (msg_value message = Some buf \<and> buf \<noteq> [] \<and> JSON_parse rt (toString buf) = Inr cdcData \<and>
        try_body cdcData (initial_result cdcData) = (result, thrown) \<and>
        JSON_stringify rt (log_object now topic partn message result (length buf)) = Some e \<longrightarrow>
        processMessage rt now topic partn message tr =
          (tr @ (case thrown of
                   None \<Rightarrow> []
                 | Some x \<Rightarrow> [Log ERROR [Text ''Error processing CDC data structure:'', Thrown x]])
              @ [Log ERROR [Text ''Error processing message:'', Thrown e]], Inr ()))
   \<and> (msg_value bad = Some buf1 \<and> buf1 \<noteq> [] \<and> JSON_parse rt (toString buf1) = Inl e1 \<and>
        msg_value good = Some buf2 \<and> buf2 \<noteq> [] \<and> JSON_parse rt (toString buf2) = Inr payload \<and>
        try_body payload (initial_result payload) = (r2, thrown2) \<and>
        JSON_stringify rt (log_object now2 topic2 partn2 good r2 (length buf2)) = None \<longrightarrow>
        run_messages rt ((now1, topic1, partn1, bad) # (now2, topic2, partn2, good) # ds) tr =
          run_messages rt ds
            (tr @ [Log ERROR [Text ''Failed to parse message JSON:'', Thrown e1],
                   Log INFO [Text ''Raw message:'', Text (toString buf1)]]
                @ (case thrown2 of
                     None \<Rightarrow> []
                   | Some x \<Rightarrow> [Log ERROR [Text ''Error processing CDC data structure:'', Thrown x]])
                @ [Log INFO [JsonText (log_object now2 topic2 partn2 good r2 (length buf2))]]))"
proof (intro conjI impI)
  show "snd (run_messages rt ds tr) = Inr ()" by (rule run_messages_returns)
next
  assume "msg_value message = Some buf \<and> buf \<noteq> [] \<and> JSON_parse rt (toString buf) = Inl e"
  then show "processMessage rt now topic partn message tr =
          (tr @ [Log ERROR [Text ''Failed to parse message JSON:'', Thrown e],
                 Log INFO [Text ''Raw message:'', Text (toString buf)]], Inr ())"
    by (simp add: processMessage_parse_failure)
next
  assume a: "msg_value message = Some buf \<and> buf \<noteq> [] \<and> JSON_parse rt (toString buf) = Inr cdcData \<and>
        try_body cdcData (initial_result cdcData) = (result, Some e) \<and>
        JSON_stringify rt (log_object now topic partn message result (length buf)) = None"
  then have "processDatabaseChange cdcData tr =
      (tr @ [Log ERROR [Text ''Error processing CDC data structure:'', Thrown e]], Inr result)"
    using processDatabaseChange_thrown[of cdcData result "Some e" tr] by simp
  then show "processMessage rt now topic partn message tr =
          (tr @ [Log ERROR [Text ''Error processing CDC data structure:'', Thrown e],
                 Log INFO [JsonText (log_object now topic partn message result (length buf))]],
           Inr ())"
    using a processMessage_emits[of message buf rt cdcData tr _ result now topic partn] by simp
next
  show "(\<exists>result e. try_body cdcData (initial_result cdcData) = (result, Some e)) \<longleftrightarrow>
        (cdcData = JNull \<or>
         (\<exists>rows. get_prop cdcData ''data'' = Inr (Some (JArr (JNull # rows)))))"
    by (rule try_body_throws_iff)
next
  assume a: "msg_value message = Some buf \<and> buf \<noteq> [] \<and> JSON_parse rt (toString buf) = Inr cdcData \<and>
        try_body cdcData (initial_result cdcData) = (result, thrown) \<and>
        JSON_stringify rt (log_object now topic partn message result (length buf)) = Some e"
  then have "processDatabaseChange cdcData tr =
      (tr @ (case thrown of
               None \<Rightarrow> []
             | Some x \<Rightarrow> [Log ERROR [Text ''Error processing CDC data structure:'', Thrown x]]),
       Inr result)"
    using processDatabaseChange_thrown[of cdcData result thrown tr] by simp
  then show "processMessage rt now topic partn message tr =
          (tr @ (case thrown of
                   None \<Rightarrow> []
                 | Some x \<Rightarrow> [Log ERROR [Text ''Error processing CDC data structure:'', Thrown x]])
              @ [Log ERROR [Text ''Error processing message:'', Thrown e]], Inr ())"
    using a processMessage_stringify_failure[of message buf rt cdcData tr _ result now topic partn e]
    by simp
next
  assume a: "msg_value bad = Some buf1 \<and> buf1 \<noteq> [] \<and> JSON_parse rt (toString buf1) = Inl e1 \<and>
        msg_value good = Some buf2 \<and> buf2 \<noteq> [] \<and> JSON_parse rt (toString buf2) = Inr payload \<and>
        try_body payload (initial_result payload) = (r2, thrown2) \<and>
        JSON_stringify rt (log_object now2 topic2 partn2 good r2 (length buf2)) = None"
  let ?tr1 = "tr @ [Log ERROR [Text ''Failed to parse message JSON:'', Thrown e1],
                    Log INFO [Text ''Raw message:'', Text (toString buf1)]]"
  let ?tr2 = "?tr1 @ (case thrown2 of
                     None \<Rightarrow> []
                   | Some x \<Rightarrow> [Log ERROR [Text ''Error processing CDC data structure:'', Thrown x]])"
  have 1: "processMessage rt now1 topic1 partn1 bad tr = (?tr1, Inr ())"
    using a by (simp add: processMessage_parse_failure)
  have pdc: "processDatabaseChange payload ?tr1 = (?tr2, Inr r2)"
    using a processDatabaseChange_thrown[of payload r2 thrown2 ?tr1] by simp
  have 2: "processMessage rt now2 topic2 partn2 good ?tr1 =
          (?tr2 @ [Log INFO [JsonText (log_object now2 topic2 partn2 good r2 (length buf2))]], Inr ())"
    using a pdc processMessage_emits[of good buf2 rt payload ?tr1 ?tr2 r2 now2 topic2 partn2] by blast
  show "run_messages rt ((now1, topic1, partn1, bad) # (now2, topic2, partn2, good) # ds) tr =
          run_messages rt ds
            (tr @ [Log ERROR [Text ''Failed to parse message JSON:'', Thrown e1],
                   Log INFO [Text ''Raw message:'', Text (toString buf1)]]
                @ (case thrown2 of
                     None \<Rightarrow> []
                   | Some x \<Rightarrow> [Log ERROR [Text ''Error processing CDC data structure:'', Thrown x]])
                @ [Log INFO [JsonText (log_object now2 topic2 partn2 good r2 (length buf2))]])"
    using 1 2 by simp
qed

theorem failure_isolation_witness:
  "run_messages
     \<lparr>JSON_parse = (\<lambda>text. if text = ''{\"type\":\"insert\",\"data\":[null]}''
                            then Inr (JObj [(''type'', JStr ''insert''), (''data'', JArr [JNull])])
                            else Inl (SyntaxError ''Unexpected token'')),
      JSON_stringify = (\<lambda>v. None)\<rparr>
     [(''2025-08-19T10:30:45.123Z'', ''tidb-cdc-changes'', 0,
       \<lparr>msg_value = Some ''{oops'', msg_offset = ''7'', msg_timestamp = ''1755599445000''\<rparr>),
      (''2025-08-19T10:30:46.000Z'', ''tidb-cdc-changes'', 0,
       \<lparr>msg_value = Some ''{\"type\":\"insert\",\"data\":[null]}'', msg_offset = ''8'',
        msg_timestamp = ''1755599446000''\<rparr>)] [] =
   ([Log ERROR [Text ''Failed to parse message JSON:'', Thrown (SyntaxError ''Unexpected token'')],
     Log INFO [Text ''Raw message:'', Text ''{oops''],
     Log ERROR [Text ''Error processing CDC data structure:'',
                Thrown (TypeError ''Cannot read properties of null (reading id)'')],
     Log INFO [JsonText (JObj [(''timestamp'', JStr ''2025-08-19T10:30:46.000Z''),
           (''source'', JStr ''database-cdc''),
           (''topic'', JStr ''tidb-cdc-changes''),
           (''partition'', JNum 0),
           (''offset'', JStr ''8''),
           (''changeType'', JStr ''insert''),
           (''table'', JNull),
           (''database'', JNull),
           (''primaryKey'', JNull),
           (''changes'', JObj []),
           (''metadata'', JObj [(''kafkaTimestamp'', JStr ''1755599446000''),
                                (''messageSize'', JNum 31)])])]], Inr ())
   \<and> processMessage
       \<lparr>JSON_parse = (\<lambda>text. Inr (JObj [])),
        JSON_stringify = (\<lambda>v. Some (TypeError ''Converting circular structure to JSON''))\<rparr>
       ''2025-08-19T10:30:46.000Z'' ''tidb-cdc-changes'' 0
       \<lparr>msg_value = Some ''{}'', msg_offset = ''8'', msg_timestamp = ''1755599446000''\<rparr> [] =
     ([Log ERROR [Text ''Error processing message:'',
                  Thrown (TypeError ''Converting circular structure to JSON'')]], Inr ())
   \<and> processMessage
       \<lparr>JSON_parse = (\<lambda>text. if text = ''null'' then Inr JNull
                              else Inl (SyntaxError ''Unexpected token'')),
        JSON_stringify = (\<lambda>v. None)\<rparr>
       ''2025-08-19T10:30:47.000Z'' ''tidb-cdc-changes'' 0
       \<lparr>msg_value = Some ''null'', msg_offset = ''9'', msg_timestamp = ''1755599447000''\<rparr> [] =
     ([Log ERROR [Text ''Error processing CDC data structure:'',
                  Thrown (TypeError ''Cannot read properties of null (reading type)'')],
       Log INFO [JsonText (JObj [(''timestamp'', JStr ''2025-08-19T10:30:47.000Z''),
           (''source'', JStr ''database-cdc''),
           (''topic'', JStr ''tidb-cdc-changes''),
           (''partition'', JNum 0),
           (''offset'', JStr ''9''),
           (''changeType'', JStr ''unknown''),
           (''table'', JNull),
           (''database'', JNull),
           (''primaryKey'', JNull),
           (''changes'', JObj []),
           (''metadata'', JObj [(''kafkaTimestamp'', JStr ''1755599447000''),
                                (''messageSize'', JNum 4)])])]], Inr ())"
proof -
  let ?text = "''{\"type\":\"insert\",\"data\":[null]}''"
  let ?payload = "JObj [(''type'', JStr ''insert''), (''data'', JArr [JNull])]"
  let ?rt = "\<lparr>JSON_parse = (\<lambda>text. if text = ?text then Inr ?payload
                            else Inl (SyntaxError ''Unexpected token'')),
      JSON_stringify = (\<lambda>v. None)\<rparr>"
  let ?rt2 = "\<lparr>JSON_parse = (\<lambda>text. Inr (JObj [])),
        JSON_stringify = (\<lambda>v. Some (TypeError ''Converting circular structure to JSON''))\<rparr>"
  let ?bad = "\<lparr>msg_value = Some ''{oops'', msg_offset = ''7'', msg_timestamp = ''1755599445000''\<rparr>"
  let ?good = "\<lparr>msg_value = Some ?text, msg_offset = ''8'', msg_timestamp = ''1755599446000''\<rparr>"
  let ?empty = "\<lparr>msg_value = Some ''{}'', msg_offset = ''8'', msg_timestamp = ''1755599446000''\<rparr>"
  let ?r = "\<lparr>changeType = JStr ''insert'', database = JNull, table = JNull, primaryKey = JNull,
      changes = JObj [], rawData = ?payload, oldData = None, changeTimestamp = None\<rparr>"
  let ?rd = "\<lparr>changeType = JStr ''unknown'', database = JNull, table = JNull, primaryKey = JNull,
      changes = JObj [], rawData = JObj [], oldData = None, changeTimestamp = None\<rparr>"
  have tb: "try_body ?payload (initial_result ?payload) =
      (?r, Some (TypeError ''Cannot read properties of null (reading id)''))"
    by (simp add: try_body_def initial_result_def stmt_defs)
  have tb0: "try_body (JObj []) (initial_result (JObj [])) = (?rd, None)"
    by (simp add: try_body_def initial_result_def stmt_defs)
  have A: "run_messages ?rt [(''2025-08-19T10:30:45.123Z'', ''tidb-cdc-changes'', 0, ?bad),
      (''2025-08-19T10:30:46.000Z'', ''tidb-cdc-changes'', 0, ?good)] [] =
      run_messages ?rt []
        ([] @ [Log ERROR [Text ''Failed to parse message JSON:'', Thrown (SyntaxError ''Unexpected token'')],
          Log INFO [Text ''Raw message:'', Text (toString ''{oops'')]] @
         [Log ERROR [Text ''Error processing CDC data structure:'',
                Thrown (TypeError ''Cannot read properties of null (reading id)'')]] @
         [Log INFO [JsonText (log_object ''2025-08-19T10:30:46.000Z'' ''tidb-cdc-changes'' 0 ?good ?r
              (length ?text))]])"
    using failure_isolation[where rt = ?rt and ds = "[]" and tr = "[]" and bad = ?bad
        and ?buf1.0 = "''{oops''" and ?e1.0 = "SyntaxError ''Unexpected token''"
        and good = ?good and ?buf2.0 = ?text and payload = ?payload
        and ?r2.0 = ?r and ?thrown2.0 = "Some (TypeError ''Cannot read properties of null (reading id)'')"
        and ?now2.0 = "''2025-08-19T10:30:46.000Z''"
        and ?topic2.0 = "''tidb-cdc-changes''" and ?partn2.0 = 0
        and ?now1.0 = "''2025-08-19T10:30:45.123Z''" and ?topic1.0 = "''tidb-cdc-changes''"
        and ?partn1.0 = 0]
    by (simp add: tb toString_def)
  have B: "processMessage ?rt2 ''2025-08-19T10:30:46.000Z'' ''tidb-cdc-changes'' 0 ?empty [] =
     ([] @ [] @ [Log ERROR [Text ''Error processing message:'',
                  Thrown (TypeError ''Converting circular structure to JSON'')]], Inr ())"
    using failure_isolation[where rt = ?rt2 and message = ?empty and buf = "''{}''"
        and now = "''2025-08-19T10:30:46.000Z''" and topic = "''tidb-cdc-changes''" and partn = 0
        and cdcData = "JObj []" and tr = "[]" and result = ?rd and thrown = None
        and e = "TypeError ''Converting circular structure to JSON''"]
    by (simp add: tb0 toString_def)
  let ?rt3 = "\<lparr>JSON_parse = (\<lambda>text. if text = ''null'' then Inr JNull
                              else Inl (SyntaxError ''Unexpected token'')),
        JSON_stringify = (\<lambda>v. None)\<rparr>"
  let ?nullmsg = "\<lparr>msg_value = Some ''null'', msg_offset = ''9'', msg_timestamp = ''1755599447000''\<rparr>"
  have C: "processMessage ?rt3 ''2025-08-19T10:30:47.000Z'' ''tidb-cdc-changes'' 0 ?nullmsg [] =
     ([] @ [Log ERROR [Text ''Error processing CDC data structure:'',
                  Thrown (TypeError ''Cannot read properties of null (reading type)'')],
       Log INFO [JsonText (log_object ''2025-08-19T10:30:47.000Z'' ''tidb-cdc-changes'' 0 ?nullmsg
                             (initial_result JNull) (length ''null''))]], Inr ())"
    using failure_isolation[where rt = ?rt3 and message = ?nullmsg and buf = "''null''"
        and now = "''2025-08-19T10:30:47.000Z''" and topic = "''tidb-cdc-changes''" and partn = 0
        and tr = "[]" and cdcData = JNull and result = "initial_result JNull"
        and e = "TypeError ''Cannot read properties of null (reading type)''"]
    by (simp add: try_body_null toString_def)
  show ?thesis using A B C by (simp add: log_object_def toString_def initial_result_def)
qed

text \<open>
  C4 (amended). For a message that parses, when serialization does not throw,
  processMessage adds exactly one INFO entry after whatever the normalizer logged: the
  JSON text of an object with timestamp (the clock), source "database-cdc", topic,
  partition, offset, changeType, table, database, primaryKey, changes, and metadata
  with kafkaTimestamp and messageSize. These are the only properties of the entry.
\<close>

theorem emitted_entry:
  assumes "msg_value message = Some buf" and "buf \<noteq> []"
    and "JSON_parse rt (toString buf) = Inr cdcData"
    and "\<forall>v. JSON_stringify rt v = None"
  shows "\<exists>tr1 r. processDatabaseChange cdcData tr = (tr1, Inr r) \<and>
     processMessage rt now topic partn message tr =
       (tr1 @ [Log INFO [JsonText (JObj
           [(''timestamp'', JStr now),
            (''source'', JStr ''database-cdc''),
            (''topic'', JStr topic),
            (''partition'', JNum partn),
            (''offset'', JStr (msg_offset message)),
            (''changeType'', changeType r),
            (''table'', table r),
            (''database'', database r),
            (''primaryKey'', primaryKey r),
            (''changes'', changes r),
            (''metadata'', JObj [(''kafkaTimestamp'', JStr (msg_timestamp message)),
                                 (''messageSize'', JNum (int (length buf)))])])]], Inr ())"
proof -
  obtain tr1 r where pdc: "processDatabaseChange cdcData tr = (tr1, Inr r)"
    using processDatabaseChange_returns by blast
  have "processMessage rt now topic partn message tr =
     (tr1 @ [Log INFO [JsonText (log_object now topic partn message r (length buf))]], Inr ())"
    using assms pdc by (simp add: processMessage_emits)
  then show ?thesis using pdc by (simp add: log_object_def)
qed

theorem emitted_entry_witness:
  "processMessage
     \<lparr>JSON_parse = (\<lambda>text. if text = ''{\"type\":\"insert\",\"table\":\"users\",\"data\":[{\"id\":1}]}''
                            then Inr (JObj [(''type'', JStr ''insert''), (''table'', JStr ''users''),
                                           (''data'', JArr [JObj [(''id'', JNum 1)]])])
                            else Inl (SyntaxError ''Unexpected token'')),
      JSON_stringify = (\<lambda>v. None)\<rparr>
     ''2025-08-19T10:30:45.123Z'' ''tidb-cdc-changes'' 2
     \<lparr>msg_value = Some ''{\"type\":\"insert\",\"table\":\"users\",\"data\":[{\"id\":1}]}'',
      msg_offset = ''12'', msg_timestamp = ''1755599445000''\<rparr> [] =
   ([Log INFO [JsonText (JObj
           [(''timestamp'', JStr ''2025-08-19T10:30:45.123Z''),
            (''source'', JStr ''database-cdc''),
            (''topic'', JStr ''tidb-cdc-changes''),
            (''partition'', JNum 2),
            (''offset'', JStr ''12''),
            (''changeType'', JStr ''insert''),
            (''table'', JStr ''users''),
            (''database'', JNull),
            (''primaryKey'', JObj [(''id'', JNum 1)]),
            (''changes'', JArr [JObj [(''id'', JNum 1)]]),
            (''metadata'', JObj [(''kafkaTimestamp'', JStr ''1755599445000''),
                                 (''messageSize'', JNum 51)])])]], Inr ())"
proof -
  let ?text = "''{\"type\":\"insert\",\"table\":\"users\",\"data\":[{\"id\":1}]}''"
  let ?payload = "JObj [(''type'', JStr ''insert''), (''table'', JStr ''users''),
                        (''data'', JArr [JObj [(''id'', JNum 1)]])]"
  let ?rt = "\<lparr>JSON_parse = (\<lambda>text. if text = ?text then Inr ?payload
                            else Inl (SyntaxError ''Unexpected token'')),
      JSON_stringify = (\<lambda>v. None)\<rparr>"
  have pdc: "processDatabaseChange ?payload [] =
      ([], Inr \<lparr>changeType = JStr ''insert'', database = JNull, table = JStr ''users'',
                primaryKey = JObj [(''id'', JNum 1)], changes = JArr [JObj [(''id'', JNum 1)]],
                rawData = ?payload, oldData = None, changeTimestamp = None\<rparr>)"
    by (simp add: normalize_defs)
  show ?thesis
    using emitted_entry[where message = "\<lparr>msg_value = Some ?text, msg_offset = ''12'',
                                          msg_timestamp = ''1755599445000''\<rparr>"
        and buf = ?text and rt = ?rt and cdcData = ?payload and tr = "[]"
        and now = "''2025-08-19T10:30:45.123Z''" and topic = "''tidb-cdc-changes''" and partn = 2]
    by (simp add: pdc toString_def)
qed

text \<open>
  The claim as first stated fails: for an update with old_data and ts the record has
  oldData, changeTimestamp and rawData, and the emitted entry has none of the three.
\<close>

theorem entry_omits_fields_counterexample:
  "processMessage
     \<lparr>JSON_parse = (\<lambda>text.
        if text = ''{\"type\":\"update\",\"data\":[{\"id\":1}],\"old_data\":[{\"id\":1}],\"ts\":7}''
        then Inr (JObj [(''type'', JStr ''update''), (''data'', JArr [JObj [(''id'', JNum 1)]]),
                        (''old_data'', JArr [JObj [(''id'', JNum 1)]]), (''ts'', JNum 7)])
        else Inl (SyntaxError ''Unexpected token'')),
      JSON_stringify = (\<lambda>v. None)\<rparr>
     ''2025-08-19T10:30:45.123Z'' ''tidb-cdc-changes'' 0
     \<lparr>msg_value = Some ''{\"type\":\"update\",\"data\":[{\"id\":1}],\"old_data\":[{\"id\":1}],\"ts\":7}'',
      msg_offset = ''3'', msg_timestamp = ''1755599445000''\<rparr> [] =
   ([Log INFO [JsonText (JObj
           [(''timestamp'', JStr ''2025-08-19T10:30:45.123Z''),
            (''source'', JStr ''database-cdc''),
            (''topic'', JStr ''tidb-cdc-changes''),
            (''partition'', JNum 0),
            (''offset'', JStr ''3''),
            (''changeType'', JStr ''update''),
            (''table'', JNull),
            (''database'', JNull),
            (''primaryKey'', JObj [(''id'', JNum 1)]),
            (''changes'', JArr [JObj [(''id'', JNum 1)]]),
            (''metadata'', JObj [(''kafkaTimestamp'', JStr ''1755599445000''),
                                 (''messageSize'', JNum 64)])])]], Inr ())
   \<and> processDatabaseChange
        (JObj [(''type'', JStr ''update''), (''data'', JArr [JObj [(''id'', JNum 1)]]),
               (''old_data'', JArr [JObj [(''id'', JNum 1)]]), (''ts'', JNum 7)]) [] =
      ([], Inr \<lparr>changeType = JStr ''update'', database = JNull, table = JNull,
                primaryKey = JObj [(''id'', JNum 1)], changes = JArr [JObj [(''id'', JNum 1)]],
                rawData = JObj [(''type'', JStr ''update''), (''data'', JArr [JObj [(''id'', JNum 1)]]),
                                (''old_data'', JArr [JObj [(''id'', JNum 1)]]), (''ts'', JNum 7)],
                oldData = Some (JArr [JObj [(''id'', JNum 1)]]),
                changeTimestamp = Some (JNum 7)\<rparr>)"
  by (simp add: message_defs normalize_defs)

section \<open>Properties of the process\<close>

lemmas action_defs = try_catch_def logger_def call_def throw_def process_exit_def sleep_def
  set_isRunning_def

lemma testKafkaConnection_quiet:
  assumes "testKafkaConnection env s = (s', out)"
  shows "isRunning s' = isRunning s \<and> (list_ex consumer_call (events s') = list_ex consumer_call (events s))
         \<and> (out = Returned \<or> (\<exists>e. out = Threw e))"
  using assms
  by (auto simp: testKafkaConnection_def action_defs Let_def split: option.splits)

lemma start_outcome:
  assumes "start env s = (s', out)"
  shows "out = Returned \<or> out = Exited 1"
  using assms
  by (auto simp: start_def action_defs Let_def split: option.splits)

lemma connect_ok_consumer_call: "connect_ok e \<Longrightarrow> consumer_call e"
  by (induction e rule: connect_ok.induct) auto

lemma subscribe_ok_consumer_call: "subscribe_ok e \<Longrightarrow> consumer_call e"
  by (induction e rule: subscribe_ok.induct) auto

lemma no_consumer_call_not_subscribed:
  "\<not> list_ex consumer_call tr \<Longrightarrow> \<not> list_ex connect_ok tr \<and> \<not> list_ex subscribe_ok tr"
  by (auto simp: list_ex_iff dest: connect_ok_consumer_call subscribe_ok_consumer_call)

lemma start_flag:
  assumes "start env s = (s', out)" and "\<not> isRunning s" and "\<not> list_ex consumer_call (events s)"
  shows "(isRunning s' \<longleftrightarrow> subscribed (events s')) \<and>
         (out = Returned \<longrightarrow> isRunning s' \<and> list_ex run_ok (events s'))"
  using assms no_consumer_call_not_subscribed[of "events s"]
  by (auto simp: start_def action_defs Let_def subscribed_def split: option.splits)

lemma attempt_try_cases:
  assumes "attempt_try env attempt s = (s1, out)"
    and "\<not> isRunning s" and "\<not> list_ex consumer_call (events s)"
  shows "(\<exists>e. out = Threw e) \<and> \<not> isRunning s1 \<and> \<not> list_ex consumer_call (events s1)
       \<or> out = Returned \<and> isRunning s1 \<and> subscribed (events s1) \<and> list_ex run_ok (events s1)
       \<or> out = Exited 1 \<and> (isRunning s1 \<longleftrightarrow> subscribed (events s1))"
proof -
  define s0 where "s0 = s\<lparr>events := events s @ [Log INFO [Text ''Starting CDC message processor (attempt '',
      Num attempt, Text ''/'', Num maxRetries, Text '')...'']]\<rparr>"
  have q0: "\<not> isRunning s0" "\<not> list_ex consumer_call (events s0)"
    using assms(2,3) by (simp_all add: s0_def)
  obtain sp op where p: "testKafkaConnection env s0 = (sp, op)" by (cases "testKafkaConnection env s0")
  from testKafkaConnection_quiet[OF p] q0
  have qp: "\<not> isRunning sp" "\<not> list_ex consumer_call (events sp)" "op = Returned \<or> (\<exists>e. op = Threw e)"
    by auto
  show ?thesis
  proof (cases "op = Returned")
    case False
    then obtain e where e: "op = Threw e" using qp(3) by blast
    have "attempt_try env attempt s = (sp, Threw e)"
      using p e by (simp add: attempt_try_def logger_def s0_def)
    then show ?thesis using assms(1) qp by auto
  next
    case True
    obtain ss os where st: "start env sp = (ss, os)" by (cases "start env sp")
    from start_flag[OF st qp(1,2)] start_outcome[OF st]
    have f: "isRunning ss \<longleftrightarrow> subscribed (events ss)" "os = Returned \<longrightarrow> isRunning ss \<and> list_ex run_ok (events ss)"
      "os = Returned \<or> os = Exited 1" by auto
    show ?thesis
    proof (cases "os = Returned")
      case True
      have "attempt_try env attempt s =
        (ss\<lparr>events := events ss @ [Log INFO [Text ''CDC Consumer started successfully'']]\<rparr>, Returned)"
        using p \<open>op = Returned\<close> st True by (simp add: attempt_try_def logger_def s0_def)
      then show ?thesis using assms(1) f True by (auto simp: subscribed_def)
    next
      case False
      then have os: "os = Exited 1" using f(3) by blast
      have "attempt_try env attempt s = (ss, Exited 1)"
        using p \<open>op = Returned\<close> st os by (simp add: attempt_try_def logger_def s0_def)
      then show ?thesis using assms(1) f by auto
    qed
  qed
qed

lemma attempt_catch_cases:
  assumes "attempt_catch attempt error s = (s2, out)"
  shows "isRunning s2 = isRunning s \<and>
         list_ex consumer_call (events s2) = list_ex consumer_call (events s) \<and>
         (if attempt = maxRetries then out = Exited 1 else out = Returned)"
  using assms
  by (auto simp: attempt_catch_def action_defs split: if_splits)

lemma startConsumer_from_flag:
  assumes "startConsumer_from env attempt s = (s', out)"
    and "\<not> isRunning s" and "\<not> list_ex consumer_call (events s)"
  shows "(isRunning s' \<longleftrightarrow> subscribed (events s')) \<and>
         (out = Returned \<and> attempt \<le> maxRetries \<longrightarrow> isRunning s' \<and> list_ex run_ok (events s'))"
  using assms
proof (induction env attempt s rule: startConsumer_from.induct)
  case (1 env attempt s)
  show ?case
  proof (cases "attempt \<le> maxRetries")
    case False
    then have "s' = s" using "1.prems"(1) by (simp add: startConsumer_from.simps)
    then show ?thesis
      using "1.prems"(2,3) no_consumer_call_not_subscribed[of "events s"] False
      by (simp add: subscribed_def)
  next
    case True
    obtain s1 o1 where t: "attempt_try env attempt s = (s1, o1)" by (cases "attempt_try env attempt s")
    from attempt_try_cases[OF t "1.prems"(2,3)]
    consider (threw) e where "o1 = Threw e" "\<not> isRunning s1" "\<not> list_ex consumer_call (events s1)"
      | (ret) "o1 = Returned" "isRunning s1" "subscribed (events s1)" "list_ex run_ok (events s1)"
      | (exit) "o1 = Exited 1" "isRunning s1 \<longleftrightarrow> subscribed (events s1)"
      by blast
    then show ?thesis
    proof cases
      case ret
      then have "startConsumer_from env attempt s = (s1, Returned)"
        using True t by (simp add: startConsumer_from.simps)
      then show ?thesis using "1.prems"(1) ret by auto
    next
      case exit
      then have "startConsumer_from env attempt s = (s1, Exited 1)"
        using True t by (simp add: startConsumer_from.simps)
      then show ?thesis using "1.prems"(1) exit by auto
    next
      case threw
      obtain s2 o2 where c: "attempt_catch attempt e s1 = (s2, o2)" by (cases "attempt_catch attempt e s1")
      from attempt_catch_cases[OF c] threw
      have q2: "\<not> isRunning s2" "\<not> list_ex consumer_call (events s2)"
        "if attempt = maxRetries then o2 = Exited 1 else o2 = Returned" by auto
      show ?thesis
      proof (cases "attempt = maxRetries")
        case True
        then have "startConsumer_from env attempt s = (s2, Exited 1)"
          using \<open>attempt \<le> maxRetries\<close> t threw c q2 by (simp add: startConsumer_from.simps)
        then show ?thesis
          using "1.prems"(1) q2 no_consumer_call_not_subscribed[of "events s2"]
          by (auto simp: subscribed_def)
      next
        case False
        then have o2: "o2 = Returned" using q2(3) by simp
        have eq: "startConsumer_from env attempt s = startConsumer_from env (attempt + 1) s2"
          using \<open>attempt \<le> maxRetries\<close> t threw c o2 by (simp add: startConsumer_from.simps)
        have le: "attempt + 1 \<le> maxRetries" using False \<open>attempt \<le> maxRetries\<close> by simp
        have "(isRunning s' \<longleftrightarrow> subscribed (events s')) \<and>
         (out = Returned \<and> attempt + 1 \<le> maxRetries \<longrightarrow> isRunning s' \<and> list_ex run_ok (events s'))"
          using "1.IH"[OF \<open>attempt \<le> maxRetries\<close> t[symmetric] _ c[symmetric] _ _ q2(1,2)]
            threw o2 eq "1.prems"(1) by auto
        then show ?thesis using le by blast
      qed
    qed
  qed
qed

lemma stop_returned:
  assumes "stop env s = (s2, Returned)"
  shows "\<not> isRunning s2"
  using assms
  by (auto simp: stop_def action_defs Let_def split: if_splits option.splits)

lemmas startup_defs = startConsumer_def startConsumer_from.simps attempt_try_def attempt_catch_def
  testKafkaConnection_def start_def maxRetries_def retryDelay_def topic_name_def new_processor_def

lemma stop_threw:
  assumes "stop env s = (s2, Threw e)"
  shows "isRunning s \<and> isRunning s2"
  using assms
  by (auto simp: stop_def action_defs Let_def split: if_splits option.splits)

text \<open>\<open>start\<close> is its statements before the run, then the run, under the same catch.\<close>

lemma start_split:
  "start env s =
     try_catch (block [start_before_run env, call env ConsumerRun])
       (\<lambda>error. block [logger ERROR [Text ''Failed to start consumer:'', Thrown error],
                      process_exit 1]) s"
  by (simp add: start_def start_before_run_def action_defs Let_def
      split: option.splits prod.splits outcome.splits)

lemma run_ok_consumer_call: "run_ok e \<Longrightarrow> consumer_call e"
  by (induction e rule: run_ok.induct) auto

lemma start_before_run_flag:
  assumes "start_before_run env s = (sw, outw)"
    and "\<not> isRunning s" and "\<not> list_ex consumer_call (events s)"
  shows "(isRunning sw \<longleftrightarrow> subscribed (events sw)) \<and> (isRunning sw \<longleftrightarrow> outw = Returned) \<and>
         \<not> list_ex run_ok (events sw)"
proof -
  have nr: "\<not> list_ex run_ok (events s)"
    using assms(3) by (auto simp: list_ex_iff dest: run_ok_consumer_call)
  show ?thesis
    using assms nr no_consumer_call_not_subscribed[of "events s"]
    by (auto simp: start_before_run_def action_defs Let_def subscribed_def split: option.splits)
qed

text \<open>
  C7 (amended). The body of the health response has exactly the three properties
  status, timestamp and service, and status is "healthy" when the isRunning flag is set
  and "unhealthy" when it is not. The flag is not set in a new processor, and the
  connectivity probe and the catch block between attempts leave it as it is. start sets
  it as soon as consumer.connect() and consumer.subscribe() have both succeeded, before
  consumer.run() is called: in the state in which run() is awaited, the flag is set
  exactly when both have succeeded, and no run has succeeded yet. After startConsumer
  the flag is set exactly when connect and subscribe have succeeded, and when
  startConsumer returns, consumer.run() has succeeded too. A stop that returns has
  cleared the flag; a stop that throws leaves it set.
\<close>

theorem health_reports_isRunning:
  "(\<exists>st. health now s = JObj [(''status'', JStr st), (''timestamp'', JStr now),
                               (''service'', JStr ''cdc-consumer'')] \<and>
         (st = ''healthy'' \<longleftrightarrow> isRunning s) \<and> (st = ''unhealthy'' \<longleftrightarrow> \<not> isRunning s))
   \<and> \<not> isRunning new_processor
   \<and> (testKafkaConnection env s = (s3, out3) \<longrightarrow> isRunning s3 = isRunning s)
   \<and> (attempt_catch attempt error s = (s4, out4) \<longrightarrow> isRunning s4 = isRunning s)
   \<and> start env s =
        try_catch (block [start_before_run env, call env ConsumerRun])
          (\<lambda>error. block [logger ERROR [Text ''Failed to start consumer:'', Thrown error],
                         process_exit 1]) s
   \<and> (\<not> isRunning s \<and> \<not> list_ex consumer_call (events s) \<and>
        start_before_run env s = (sw, outw) \<longrightarrow>
        (isRunning sw \<longleftrightarrow> subscribed (events sw)) \<and> (isRunning sw \<longleftrightarrow> outw = Returned) \<and>
        \<not> list_ex run_ok (events sw))
   \<and> (startConsumer env new_processor = (s1, out) \<longrightarrow>
        (isRunning s1 \<longleftrightarrow> subscribed (events s1)) \<and>
        (out = Returned \<longrightarrow> isRunning s1 \<and> list_ex run_ok (events s1)))
   \<and> (stop env s = (s2, Returned) \<longrightarrow> \<not> isRunning s2)
   \<and> (stop env s = (s5, Threw e) \<longrightarrow> isRunning s \<and> isRunning s5)"
proof (intro conjI impI)
  show "\<exists>st. health now s = JObj [(''status'', JStr st), (''timestamp'', JStr now),
                               (''service'', JStr ''cdc-consumer'')] \<and>
         (st = ''healthy'' \<longleftrightarrow> isRunning s) \<and> (st = ''unhealthy'' \<longleftrightarrow> \<not> isRunning s)"
    by (simp add: health_def)
next
  show "\<not> isRunning new_processor" by (simp add: new_processor_def)
next
  assume "testKafkaConnection env s = (s3, out3)"
  then show "isRunning s3 = isRunning s" using testKafkaConnection_quiet by blast
next
  assume "attempt_catch attempt error s = (s4, out4)"
  then show "isRunning s4 = isRunning s" using attempt_catch_cases by blast
next
  show "start env s =
        try_catch (block [start_before_run env, call env ConsumerRun])
          (\<lambda>error. block [logger ERROR [Text ''Failed to start consumer:'', Thrown error],
                         process_exit 1]) s"
    by (rule start_split)
next
  assume a: "\<not> isRunning s \<and> \<not> list_ex consumer_call (events s) \<and>
        start_before_run env s = (sw, outw)"
  then have "(isRunning sw \<longleftrightarrow> subscribed (events sw)) \<and> (isRunning sw \<longleftrightarrow> outw = Returned) \<and>
         \<not> list_ex run_ok (events sw)"
    using start_before_run_flag[of env s sw outw] by blast
  then show "isRunning sw \<longleftrightarrow> subscribed (events sw)" and "isRunning sw \<longleftrightarrow> outw = Returned"
    and "\<not> list_ex run_ok (events sw)"
    by blast+
next
  assume a: "startConsumer env new_processor = (s1, out)"
  have a': "startConsumer_from env 1 new_processor = (s1, out)"
    using a by (simp add: startConsumer_def)
  have q: "\<not> isRunning new_processor" "\<not> list_ex consumer_call (events new_processor)"
    by (simp_all add: new_processor_def)
  have le: "(1::nat) \<le> maxRetries" by (simp add: maxRetries_def)
  from startConsumer_from_flag[OF a' q] le
  show "isRunning s1 \<longleftrightarrow> subscribed (events s1)"
    and "out = Returned \<Longrightarrow> isRunning s1" and "out = Returned \<Longrightarrow> list_ex run_ok (events s1)"
    by blast+
next
  assume "stop env s = (s2, Returned)"
  then show "\<not> isRunning s2" by (rule stop_returned)
next
  assume "stop env s = (s5, Threw e)"
  then show "isRunning s" and "isRunning s5" using stop_threw by blast+
qed

theorem health_reports_isRunning_witness:
  "health ''2025-08-19T10:30:45.123Z'' new_processor =
     JObj [(''status'', JStr ''unhealthy''), (''timestamp'', JStr ''2025-08-19T10:30:45.123Z''),
           (''service'', JStr ''cdc-consumer'')]
   \<and> health ''2025-08-19T10:30:45.123Z''
        (fst (start_before_run \<lparr>KAFKA_TOPIC = None, respond = (\<lambda>tr c. None)\<rparr> new_processor)) =
     JObj [(''status'', JStr ''healthy''), (''timestamp'', JStr ''2025-08-19T10:30:45.123Z''),
           (''service'', JStr ''cdc-consumer'')]
   \<and> \<not> list_ex run_ok
        (events (fst (start_before_run \<lparr>KAFKA_TOPIC = None, respond = (\<lambda>tr c. None)\<rparr> new_processor)))
   \<and> snd (startConsumer \<lparr>KAFKA_TOPIC = None, respond = (\<lambda>tr c. None)\<rparr> new_processor) = Returned
   \<and> health ''2025-08-19T10:30:45.123Z''
        (fst (startConsumer \<lparr>KAFKA_TOPIC = None, respond = (\<lambda>tr c. None)\<rparr> new_processor)) =
     JObj [(''status'', JStr ''healthy''), (''timestamp'', JStr ''2025-08-19T10:30:45.123Z''),
           (''service'', JStr ''cdc-consumer'')]
   \<and> health ''2025-08-19T10:30:45.123Z''
        (fst (stop \<lparr>KAFKA_TOPIC = None, respond = (\<lambda>tr c. None)\<rparr>
               (fst (startConsumer \<lparr>KAFKA_TOPIC = None, respond = (\<lambda>tr c. None)\<rparr> new_processor)))) =
     JObj [(''status'', JStr ''unhealthy''), (''timestamp'', JStr ''2025-08-19T10:30:45.123Z''),
           (''service'', JStr ''cdc-consumer'')]
   \<and> health ''2025-08-19T10:30:45.123Z''
        (fst (stop \<lparr>KAFKA_TOPIC = None, respond = (\<lambda>tr c. Some (Error ''Broker not connected''))\<rparr>
               \<lparr>isRunning = True, events = []\<rparr>)) =
     JObj [(''status'', JStr ''healthy''), (''timestamp'', JStr ''2025-08-19T10:30:45.123Z''),
           (''service'', JStr ''cdc-consumer'')]"
proof -
  let ?env = "\<lparr>KAFKA_TOPIC = None, respond = (\<lambda>tr c. None)\<rparr>"
  let ?down = "\<lparr>KAFKA_TOPIC = None, respond = (\<lambda>tr c. Some (Error ''Broker not connected''))\<rparr>"
  let ?now = "''2025-08-19T10:30:45.123Z''"
  let ?sa = "fst (startConsumer ?env new_processor)"
  let ?sb = "fst (stop ?env ?sa)"
  let ?sw = "fst (start_before_run ?env new_processor)"
  let ?up = "\<lparr>isRunning = True, events = []\<rparr>"
  let ?sd = "fst (stop ?down ?up)"
  have o1: "snd (startConsumer ?env new_processor) = Returned"
    by (simp add: startup_defs action_defs)
  then have s1: "startConsumer ?env new_processor = (?sa, Returned)"
    by (metis prod.collapse)
  have r1: "isRunning ?sa"
    using health_reports_isRunning[where env = ?env and ?s1.0 = ?sa and out = Returned] s1 by blast
  have "snd (stop ?env ?sa) = Returned"
    using r1 by (simp add: stop_def action_defs)
  then have s2: "stop ?env ?sa = (?sb, Returned)"
    by (metis prod.collapse)
  have r2: "\<not> isRunning ?sb"
    using health_reports_isRunning[where env = ?env and s = ?sa and ?s2.0 = ?sb] s2 by blast
  have r0: "\<not> isRunning new_processor"
    using health_reports_isRunning by blast
  have "snd (start_before_run ?env new_processor) = Returned"
    by (simp add: start_before_run_def action_defs)
  then have sw: "start_before_run ?env new_processor = (?sw, Returned)"
    by (metis prod.collapse)
  have q: "\<not> isRunning new_processor \<and> \<not> list_ex consumer_call (events new_processor)"
    by (simp add: new_processor_def)
  have rw: "isRunning ?sw \<and> \<not> list_ex run_ok (events ?sw)"
    using health_reports_isRunning[where env = ?env and s = new_processor and sw = ?sw
        and outw = Returned] sw q by blast
  have "snd (stop ?down ?up) = Threw (Error ''Broker not connected'')"
    by (simp add: stop_def action_defs)
  then have sd: "stop ?down ?up = (?sd, Threw (Error ''Broker not connected''))"
    by (metis prod.collapse)
  have rd: "isRunning ?sd"
    using health_reports_isRunning[where env = ?down and s = ?up and ?s5.0 = ?sd
        and e = "Error ''Broker not connected''"] sd by blast
  show ?thesis using r0 r1 r2 rw rd o1 by (simp add: health_def)
qed

text \<open>
  The claim as first stated fails: with a broker on which consumer.run() fails, the
  state in which run() is awaited has the flag set, so a health request served there
  is answered "healthy", although the Message Loop has not started; it never does,
  since start then ends the process with status 1.
\<close>

theorem healthy_before_run_counterexample:
  "start_before_run
     \<lparr>KAFKA_TOPIC = None,
      respond = (\<lambda>tr c. if c = ConsumerRun then Some (Error ''Group join failed'') else None)\<rparr>
     new_processor =
   (\<lparr>isRunning = True,
     events = [Log INFO [Text ''Starting CDC Consumer...''],
               Call ConsumerConnect None,
               Log INFO [Text ''Connected to Kafka''],
               Call (ConsumerSubscribe ''tidb-cdc-changes'' False) None]\<rparr>, Returned)
   \<and> health ''2025-08-19T10:30:45.123Z''
        \<lparr>isRunning = True,
         events = [Log INFO [Text ''Starting CDC Consumer...''],
                   Call ConsumerConnect None,
                   Log INFO [Text ''Connected to Kafka''],
                   Call (ConsumerSubscribe ''tidb-cdc-changes'' False) None]\<rparr> =
       JObj [(''status'', JStr ''healthy''), (''timestamp'', JStr ''2025-08-19T10:30:45.123Z''),
             (''service'', JStr ''cdc-consumer'')]
   \<and> start
        \<lparr>KAFKA_TOPIC = None,
         respond = (\<lambda>tr c. if c = ConsumerRun then Some (Error ''Group join failed'') else None)\<rparr>
        new_processor =
      (\<lparr>isRunning = True,
        events = [Log INFO [Text ''Starting CDC Consumer...''],
                  Call ConsumerConnect None,
                  Log INFO [Text ''Connected to Kafka''],
                  Call (ConsumerSubscribe ''tidb-cdc-changes'' False) None,
                  Call ConsumerRun (Some (Error ''Group join failed'')),
                  Log ERROR [Text ''Failed to start consumer:'', Thrown (Error ''Group join failed'')]]\<rparr>,
       Exited 1)"
  by (simp add: start_before_run_def start_def health_def topic_name_def new_processor_def action_defs)

text \<open>
  C5 (amended). On SIGTERM and on SIGINT alike: when the processor is running and
  consumer.disconnect() succeeds, the disconnect is made, then the flag is cleared, and
  then the process exits with status 0; when the processor is not running, the process
  exits with status 0 and no disconnect is made; when the processor is running and
  consumer.disconnect() throws, the error leaves the handler: nothing is logged after
  the call, the flag stays set, and process.exit(0) is not reached.
\<close>

theorem shutdown_on_signal:
  "(isRunning s \<and> (\<forall>tr. respond env tr ConsumerDisconnect = None) \<longrightarrow>
      on_SIGTERM env s =
        (\<lparr>isRunning = False,
          events = events s @ [Log INFO [Text ''Received SIGTERM, shutting down gracefully...''],
                               Log INFO [Text ''Stopping CDC Consumer...''],
                               Call ConsumerDisconnect None,
                               Log INFO [Text ''Consumer stopped'']]\<rparr>, Exited 0))
   \<and> (\<not> isRunning s \<longrightarrow>
      on_SIGTERM env s =
        (s\<lparr>events := events s @ [Log INFO [Text ''Received SIGTERM, shutting down gracefully...'']]\<rparr>, Exited 0))
   \<and> (isRunning s \<and> (\<forall>tr. respond env tr ConsumerDisconnect = Some e) \<longrightarrow>
      on_SIGTERM env s =
        (s\<lparr>events := events s @ [Log INFO [Text ''Received SIGTERM, shutting down gracefully...''],
                                  Log INFO [Text ''Stopping CDC Consumer...''],
                                  Call ConsumerDisconnect (Some e)]\<rparr>, Threw e))
   \<and> (isRunning s \<and> (\<forall>tr. respond env tr ConsumerDisconnect = None) \<longrightarrow>
      on_SIGINT env s =
        (\<lparr>isRunning = False,
          events = events s @ [Log INFO [Text ''Received SIGINT, shutting down gracefully...''],
                               Log INFO [Text ''Stopping CDC Consumer...''],
                               Call ConsumerDisconnect None,
                               Log INFO [Text ''Consumer stopped'']]\<rparr>, Exited 0))
   \<and> (\<not> isRunning s \<longrightarrow>
      on_SIGINT env s =
        (s\<lparr>events := events s @ [Log INFO [Text ''Received SIGINT, shutting down gracefully...'']]\<rparr>, Exited 0))
   \<and> (isRunning s \<and> (\<forall>tr. respond env tr ConsumerDisconnect = Some e) \<longrightarrow>
      on_SIGINT env s =
        (s\<lparr>events := events s @ [Log INFO [Text ''Received SIGINT, shutting down gracefully...''],
                                  Log INFO [Text ''Stopping CDC Consumer...''],
                                  Call ConsumerDisconnect (Some e)]\<rparr>, Threw e))"
  by (auto simp: on_SIGTERM_def on_SIGINT_def stop_def action_defs)

theorem shutdown_on_signal_witness:
  "on_SIGTERM \<lparr>KAFKA_TOPIC = None, respond = (\<lambda>tr c. None)\<rparr> \<lparr>isRunning = True, events = []\<rparr> =
     (\<lparr>isRunning = False,
       events = [Log INFO [Text ''Received SIGTERM, shutting down gracefully...''],
                 Log INFO [Text ''Stopping CDC Consumer...''],
                 Call ConsumerDisconnect None,
                 Log INFO [Text ''Consumer stopped'']]\<rparr>, Exited 0)
   \<and> on_SIGINT \<lparr>KAFKA_TOPIC = None, respond = (\<lambda>tr c. None)\<rparr> \<lparr>isRunning = False, events = []\<rparr> =
     (\<lparr>isRunning = False,
       events = [Log INFO [Text ''Received SIGINT, shutting down gracefully...'']]\<rparr>, Exited 0)
   \<and> on_SIGINT \<lparr>KAFKA_TOPIC = None, respond = (\<lambda>tr c. Some (Error ''Broker not connected''))\<rparr>
        \<lparr>isRunning = True, events = []\<rparr> =
     (\<lparr>isRunning = True,
       events = [Log INFO [Text ''Received SIGINT, shutting down gracefully...''],
                 Log INFO [Text ''Stopping CDC Consumer...''],
                 Call ConsumerDisconnect (Some (Error ''Broker not connected''))]\<rparr>,
      Threw (Error ''Broker not connected''))"
  using shutdown_on_signal[where env = "\<lparr>KAFKA_TOPIC = None, respond = (\<lambda>tr c. None)\<rparr>"
          and s = "\<lparr>isRunning = True, events = []\<rparr>"]
        shutdown_on_signal[where env = "\<lparr>KAFKA_TOPIC = None, respond = (\<lambda>tr c. None)\<rparr>"
          and s = "\<lparr>isRunning = False, events = []\<rparr>"]
        shutdown_on_signal[where env = "\<lparr>KAFKA_TOPIC = None,
                                          respond = (\<lambda>tr c. Some (Error ''Broker not connected''))\<rparr>"
          and s = "\<lparr>isRunning = True, events = []\<rparr>" and e = "Error ''Broker not connected''"]
  by simp

text \<open>
  The claim as first stated fails: with a disconnect that throws, the SIGTERM handler
  logs nothing about it and does not reach process.exit(0).
\<close>

theorem failed_disconnect_escalates_counterexample:
  "on_SIGTERM
     \<lparr>KAFKA_TOPIC = None,
      respond = (\<lambda>tr c. if c = ConsumerDisconnect then Some (Error ''Broker not connected'') else None)\<rparr>
     \<lparr>isRunning = True, events = []\<rparr> =
   (\<lparr>isRunning = True,
     events = [Log INFO [Text ''Received SIGTERM, shutting down gracefully...''],
               Log INFO [Text ''Stopping CDC Consumer...''],
               Call ConsumerDisconnect (Some (Error ''Broker not connected''))]\<rparr>,
    Threw (Error ''Broker not connected''))"
  by (simp add: on_SIGTERM_def stop_def action_defs)

text \<open>
  C3 (the code where it departs from the claim). The broker answers the connectivity
  probe, the first consumer.connect() fails, and any later one would succeed.
  startConsumer calls start once: its own catch block logs the error and ends the
  process with status 1 in the first attempt, with no retry and no delay.
\<close>

theorem connect_failure_exits_without_retry:
  "startConsumer
     \<lparr>KAFKA_TOPIC = None,
      respond = (\<lambda>tr c. if c = ConsumerConnect \<and> \<not> list_ex consumer_call tr
                         then Some (Error ''Connection timeout'') else None)\<rparr>
     new_processor =
   (\<lparr>isRunning = False,
     events = [Log INFO [Text ''Starting CDC message processor (attempt '', Num 1, Text ''/'',
                         Num 10, Text '')...''],
               Call AdminConnect None,
               Call AdminListTopics None,
               Log INFO [Text ''Kafka connectivity verified''],
               Call AdminDisconnect None,
               Log INFO [Text ''Starting CDC Consumer...''],
               Call ConsumerConnect (Some (Error ''Connection timeout'')),
               Log ERROR [Text ''Failed to start consumer:'', Thrown (Error ''Connection timeout'')]]\<rparr>,
    Exited 1)"
proof -
  let ?env = "\<lparr>KAFKA_TOPIC = None,
      respond = (\<lambda>tr c. if c = ConsumerConnect \<and> \<not> list_ex consumer_call tr
                         then Some (Error ''Connection timeout'') else None)\<rparr>"
  have t: "attempt_try ?env 1 new_processor =
   (\<lparr>isRunning = False,
     events = [Log INFO [Text ''Starting CDC message processor (attempt '', Num 1, Text ''/'',
                         Num 10, Text '')...''],
               Call AdminConnect None,
               Call AdminListTopics None,
               Log INFO [Text ''Kafka connectivity verified''],
               Call AdminDisconnect None,
               Log INFO [Text ''Starting CDC Consumer...''],
               Call ConsumerConnect (Some (Error ''Connection timeout'')),
               Log ERROR [Text ''Failed to start consumer:'', Thrown (Error ''Connection timeout'')]]\<rparr>,
    Exited 1)"
    by (simp add: attempt_try_def testKafkaConnection_def start_def maxRetries_def
        new_processor_def action_defs)
  show ?thesis
    unfolding startConsumer_def
    by (subst startConsumer_from.simps, subst t) (simp add: maxRetries_def)
qed

text \<open>
  For comparison, the same failure in the probe is retried after the delay, and a probe
  that fails at every attempt ends the process with status 1 after the remaining
  attempts, each but the last followed by one sleep of retryDelay, with isRunning
  untouched and no call on the consumer.
\<close>

lemma probe_failure_is_retried:
  "startConsumer
     \<lparr>KAFKA_TOPIC = None,
      respond = (\<lambda>tr c. if c = AdminConnect \<and> \<not> list_ex (\<lambda>e. e = Sleep 15000) tr
                         then Some (Error ''Connection timeout'') else None)\<rparr>
     new_processor =
   (\<lparr>isRunning = True,
     events = [Log INFO [Text ''Starting CDC message processor (attempt '', Num 1, Text ''/'',
                         Num 10, Text '')...''],
               Call AdminConnect (Some (Error ''Connection timeout'')),
               Call AdminDisconnect None,
               Log ERROR [Text ''Consumer startup attempt '', Num 1, Text '' failed:'',
                          Text ''Kafka connection test failed: Connection timeout''],
               Log INFO [Text ''Retrying in '', Num 15, Text '' seconds...''],
               Sleep 15000,
               Log INFO [Text ''Starting CDC message processor (attempt '', Num 2, Text ''/'',
                         Num 10, Text '')...''],
               Call AdminConnect None,
               Call AdminListTopics None,
               Log INFO [Text ''Kafka connectivity verified''],
               Call AdminDisconnect None,
               Log INFO [Text ''Starting CDC Consumer...''],
               Call ConsumerConnect None,
               Log INFO [Text ''Connected to Kafka''],
               Call (ConsumerSubscribe ''tidb-cdc-changes'' False) None,
               Call ConsumerRun None,
               Log INFO [Text ''CDC Consumer started successfully'']]\<rparr>,
    Returned)"
  by (simp add: startup_defs action_defs)

lemma failing_probe_throws:
  assumes "\<forall>tr. respond env tr AdminConnect = Some e"
  shows "\<exists>s1 e'. attempt_try env attempt s = (s1, Threw e') \<and> isRunning s1 = isRunning s \<and>
           filter (\<lambda>x. x = Sleep retryDelay \<or> consumer_call x) (events s1) =
           filter (\<lambda>x. x = Sleep retryDelay \<or> consumer_call x) (events s)"
  using assms
  by (auto simp: attempt_try_def testKafkaConnection_def action_defs Let_def split: option.splits)

lemma failing_probes_exhaust_retries:
  assumes "\<forall>tr. respond env tr AdminConnect = Some e" and "attempt \<le> maxRetries"
  shows "\<exists>s'. startConsumer_from env attempt s = (s', Exited 1) \<and> isRunning s' = isRunning s \<and>
           filter (\<lambda>x. x = Sleep retryDelay \<or> consumer_call x) (events s') =
           filter (\<lambda>x. x = Sleep retryDelay \<or> consumer_call x) (events s)
             @ replicate (maxRetries - attempt) (Sleep retryDelay)"
  using assms
proof (induction env attempt s rule: startConsumer_from.induct)
  case (1 env attempt s)
  obtain s1 e' where t: "attempt_try env attempt s = (s1, Threw e')" "isRunning s1 = isRunning s"
    "filter (\<lambda>x. x = Sleep retryDelay \<or> consumer_call x) (events s1) =
     filter (\<lambda>x. x = Sleep retryDelay \<or> consumer_call x) (events s)"
    using failing_probe_throws[OF "1.prems"(1)] by blast
  show ?case
  proof (cases "attempt = maxRetries")
    case True
    define s2 where "s2 = s1\<lparr>events := events s1 @
        [Log ERROR [Text ''Consumer startup attempt '', Num attempt, Text '' failed:'',
                    Text (error_message e')],
         Log ERROR [Text ''Max retry attempts reached. Exiting...'']]\<rparr>"
    have c: "attempt_catch attempt e' s1 = (s2, Exited 1)"
      using True by (simp add: attempt_catch_def action_defs s2_def)
    have "startConsumer_from env attempt s = (s2, Exited 1)"
      using "1.prems"(2) t(1) c by (simp add: startConsumer_from.simps[of env attempt s])
    then show ?thesis using t(2,3) True by (simp add: s2_def)
  next
    case False
    define s2 where "s2 = s1\<lparr>events := events s1 @
        [Log ERROR [Text ''Consumer startup attempt '', Num attempt, Text '' failed:'',
                    Text (error_message e')],
         Log INFO [Text ''Retrying in '', Num (retryDelay div 1000), Text '' seconds...''],
         Sleep retryDelay]\<rparr>"
    have c: "attempt_catch attempt e' s1 = (s2, Returned)"
      using False by (simp add: attempt_catch_def action_defs s2_def)
    have le: "attempt + 1 \<le> maxRetries" using False "1.prems"(2) by simp
    obtain s' where r: "startConsumer_from env (attempt + 1) s2 = (s', Exited 1)"
      "isRunning s' = isRunning s2"
      "filter (\<lambda>x. x = Sleep retryDelay \<or> consumer_call x) (events s') =
       filter (\<lambda>x. x = Sleep retryDelay \<or> consumer_call x) (events s2)
         @ replicate (maxRetries - (attempt + 1)) (Sleep retryDelay)"
      using "1.IH"[OF "1.prems"(2) t(1)[symmetric] refl c[symmetric] refl "1.prems"(1) le] by blast
    have eq: "startConsumer_from env attempt s = (s', Exited 1)"
      using "1.prems"(2) t(1) c r(1) by (simp add: startConsumer_from.simps[of env attempt s])
    have n: "maxRetries - attempt = Suc (maxRetries - (attempt + 1))" using le by simp
    have "filter (\<lambda>x. x = Sleep retryDelay \<or> consumer_call x) (events s2) =
          filter (\<lambda>x. x = Sleep retryDelay \<or> consumer_call x) (events s) @ [Sleep retryDelay]"
      using t(3) by (simp add: s2_def)
    then show ?thesis using eq r(2,3) t(2) n
      by (simp add: s2_def replicate_append_same)
  qed
qed

end
